(* ===== verification/Prelude.thy ===== *)
theory Prelude
  imports Main
begin

text \<open>
  Shared vocabulary of the development: Python exceptions as values, the
  result type of a fallible computation (\<open>Inl\<close> the raised exception), the
  sequencing of fallible steps and of loops over lists that stop at the first
  exception, and Python dictionaries as partial maps with the two operations
  the program uses on them, \<open>d[k]\<close> (which raises \<open>KeyError\<close>) and \<open>d[k] = v\<close>, and
  the builtin \<open>str\<close> on numbers that error messages embed.
  The lemma collection \<open>res_simps\<close> carries the component proofs through
  sequenced results.
\<close>

named_theorems res_simps "evaluation rules for sequenced fallible steps"

subsection \<open>Python exceptions\<close>

text \<open>
  The exceptions that the modelled code raises or lets propagate.  The key of a
  \<open>KeyError\<close> is kept, so that a failed registry lookup names the missing
  type, as the Python traceback does.  \<open>RecursionError\<close> is what the
  interpreter raises when its recursion limit is exceeded; the models of
  recursive collaborators run on a recursion budget and raise it when the
  budget is spent.
\<close>

datatype 'k py_exc =
    KeyError 'k
  | TypeError string
  | AttributeError string
  | NotImplementedError string
  | ValueError string
  | RecursionError

subsection \<open>Sequencing fallible steps\<close>

definition res_bind :: "'e + 'a \<Rightarrow> ('a \<Rightarrow> 'e + 'b) \<Rightarrow> 'e + 'b" where
  "res_bind r f = (case r of Inl e \<Rightarrow> Inl e | Inr a \<Rightarrow> f a)"

definition res_map :: "('a \<Rightarrow> 'b) \<Rightarrow> 'e + 'a \<Rightarrow> 'e + 'b" where
  "res_map f r = res_bind r (\<lambda>a. Inr (f a))"

text \<open>
  A Python loop over a list that stops at the first exception: without state
  (\<open>res_list\<close>, a list comprehension) and threading a state (\<open>res_mapM\<close>).
\<close>

fun res_list :: "('a \<Rightarrow> 'e + 'b) \<Rightarrow> 'a list \<Rightarrow> 'e + 'b list" where
  "res_list f [] = Inr []"
| "res_list f (x # xs) = res_bind (f x) (\<lambda>y. res_map (\<lambda>ys. y # ys) (res_list f xs))"

fun res_mapM :: "('a \<Rightarrow> 's \<Rightarrow> 'e + ('b \<times> 's)) \<Rightarrow> 'a list \<Rightarrow> 's \<Rightarrow> 'e + ('b list \<times> 's)" where
  "res_mapM f [] s = Inr ([], s)"
| "res_mapM f (x # xs) s =
     res_bind (f x s) (\<lambda>(y, s'). res_map (\<lambda>(ys, s''). (y # ys, s'')) (res_mapM f xs s'))"

subsection \<open>Dictionaries\<close>

text \<open>
  A Python \<open>dict\<close> is a partial map.  \<open>d[k]\<close> raises \<open>KeyError(k)\<close> on a missing
  key; \<open>d[k] = v\<close> inserts or overwrites.
\<close>

definition dict_getitem :: "('k \<rightharpoonup> 'v) \<Rightarrow> 'k \<Rightarrow> 'k py_exc + 'v" where
  "dict_getitem d k = (case d k of None \<Rightarrow> Inl (KeyError k) | Some v \<Rightarrow> Inr v)"

definition dict_setitem :: "('k \<rightharpoonup> 'v) \<Rightarrow> 'k \<Rightarrow> 'v \<Rightarrow> ('k \<rightharpoonup> 'v)" where
  "dict_setitem d k v = d(k \<mapsto> v)"

subsection \<open>Printing numbers\<close>

text \<open>The builtin \<open>str\<close> on integers and the \<open>', '\<close>-separated join that Python's
  list printing uses.\<close>

fun nat_str :: "nat \<Rightarrow> string" where
  "nat_str n = (if n < 10 then [char_of (48 + n)] else nat_str (n div 10) @ [char_of (48 + n mod 10)])"

definition int_str :: "int \<Rightarrow> string" where
  "int_str i = (if i < 0 then ''-'' @ nat_str (nat (- i)) else nat_str (nat i))"

definition join_str :: "string list \<Rightarrow> string" where
  "join_str ss = concat (case ss of [] \<Rightarrow> [] | s # rest \<Rightarrow> s # map (\<lambda>t. '', '' @ t) rest)"

subsection \<open>Lemmas on results\<close>

lemma res_bind_Inl [simp, res_simps]: "res_bind (Inl e) f = Inl e"
  by (simp add: res_bind_def)

lemma res_bind_Inr [simp, res_simps]: "res_bind (Inr a) f = f a"
  by (simp add: res_bind_def)

lemma res_map_Inl [simp, res_simps]: "res_map f (Inl e) = Inl e"
  by (simp add: res_map_def)

lemma res_map_Inr [simp, res_simps]: "res_map f (Inr a) = Inr (f a)"
  by (simp add: res_map_def)

lemma res_bind_assoc [res_simps]:
  "res_bind (res_bind r f) g = res_bind r (\<lambda>a. res_bind (f a) g)"
  by (cases r) simp_all

lemma res_map_res_map [simp, res_simps]: "res_map f (res_map g r) = res_map (\<lambda>a. f (g a)) r"
  by (cases r) simp_all

lemma res_bind_eq_Inr:
  "res_bind r f = Inr b \<longleftrightarrow> (\<exists>a. r = Inr a \<and> f a = Inr b)"
  by (cases r) simp_all

lemma res_map_eq_Inr:
  "res_map f r = Inr b \<longleftrightarrow> (\<exists>a. r = Inr a \<and> b = f a)"
  by (cases r) auto

lemma res_bind_eq_Inl:
  "res_bind r f = Inl e \<longleftrightarrow> r = Inl e \<or> (\<exists>a. r = Inr a \<and> f a = Inl e)"
  by (cases r) simp_all

lemma res_bind_cong [fundef_cong]:
  "r = r' \<Longrightarrow> (\<And>a. r' = Inr a \<Longrightarrow> f a = g a) \<Longrightarrow> res_bind r f = res_bind r' g"
  by (cases r') simp_all

lemma res_map_eq_Inl: "res_map f r = Inl e \<longleftrightarrow> r = Inl e"
  by (cases r) simp_all

lemma res_bind_neq_Inl:
  "r \<noteq> Inl e \<Longrightarrow> (\<And>a. r = Inr a \<Longrightarrow> f a \<noteq> Inl e) \<Longrightarrow> res_bind r f \<noteq> Inl e"
  by (cases r) simp_all

lemma res_list_neq_Inl: "(\<And>x. x \<in> set xs \<Longrightarrow> f x \<noteq> Inl e) \<Longrightarrow> res_list f xs \<noteq> Inl e"
  by (induction xs) (auto simp: res_bind_eq_Inl res_map_eq_Inl)

lemma res_list_Inr_set: "res_list f xs = Inr ys \<Longrightarrow> y \<in> set ys \<Longrightarrow> \<exists>x \<in> set xs. f x = Inr y"
  by (induction xs arbitrary: ys) (auto simp: res_bind_eq_Inr res_map_eq_Inr)

lemma res_list_map_Inr [simp]: "res_list (\<lambda>x. Inr (f x)) xs = Inr (map f xs)"
  by (induction xs) simp_all

subsection \<open>Lemmas on lists and dictionaries\<close>

lemma map_filter_eq_Nil_iff: "List.map_filter f xs = [] \<longleftrightarrow> (\<forall>x \<in> set xs. f x = None)"
  by (induction xs) (auto simp: map_filter_simps split: option.split)

lemma set_map_filter: "y \<in> set (List.map_filter f xs) \<longleftrightarrow> (\<exists>x \<in> set xs. f x = Some y)"
  by (induction xs) (auto simp: map_filter_simps split: option.split)

lemma dict_getitem_Some [simp, res_simps]: "d k = Some v \<Longrightarrow> dict_getitem d k = Inr v"
  by (simp add: dict_getitem_def)

lemma dict_getitem_None [simp, res_simps]: "d k = None \<Longrightarrow> dict_getitem d k = Inl (KeyError k)"
  by (simp add: dict_getitem_def)

lemma dict_getitem_eq_Inr: "dict_getitem d k = Inr v \<longleftrightarrow> d k = Some v"
  by (simp add: dict_getitem_def split: option.split)

lemma dict_getitem_setitem:
  "dict_getitem (dict_setitem d k v) k' = (if k' = k then Inr v else dict_getitem d k')"
  by (simp add: dict_getitem_def dict_setitem_def)

lemma dict_setitem_apply [simp]: "dict_setitem d k v k' = (if k' = k then Some v else d k')"
  by (simp add: dict_setitem_def)

end
