(* ===== verification/Core.thy ===== *)
theory Core
  imports Prelude
begin

text \<open>
  The collaborators of \<^verbatim>\<open>jax/ad_util.py\<close> that live in \<^verbatim>\<open>jax/core.py\<close> (not under
  \<^verbatim>\<open>src/\<close>), modelled from the interface the specification gives them:
  the universe of Python values the program handles, their Python classes
  (\<open>type(x)\<close>), their abstract values (\<open>core.get_aval\<close>), the validity test
  \<open>core.valid_jaxtype\<close>, the abstract-value join \<open>core.lattice_join\<close>, the
  traces of the interpreter stack with \<open>core.find_top_trace\<close> and
  \<open>core.full_lower\<close>.  Everything here is a pure function.
\<close>

subsection \<open>Abstract values\<close>

text \<open>
  \<open>AbstractUnit\<close> is \<open>core.abstract_unit\<close>, the descriptor of the no-data value;
  \<open>ShapedArray sh\<close> and \<open>ConcreteArray sh data\<close> describe arrays (shape, and for a
  concrete array its flat data); \<open>ObjAval c\<close> is the descriptor an extension
  class \<open>c\<close> registers for its instances.
\<close>

datatype aval =
    AbstractUnit
  | ShapedArray "nat list"
  | ConcreteArray "nat list" "int list"
  | ObjAval string

subsection \<open>Python values and classes\<close>

text \<open>
  The values that flow through the program.  \<open>UnitV\<close> is \<open>core.unit\<close>;
  \<open>ZeroV\<close> is the instance \<open>ad_util.zero\<close> of class \<open>Zero\<close>; \<open>NdarrayV sh data\<close>
  a concrete array; \<open>ObjV c fields\<close> an instance of an extension class \<open>c\<close>
  (the specification's \<open>IntBox(3)\<close> is \<open>ObjV ''IntBox'' [3]\<close>); \<open>StrV\<close> a Python
  string, \<open>NoneV\<close> is \<open>None\<close>, \<open>TupleV\<close> a tuple.  \<open>JVPTracerV l p t\<close> is a tracer
  of the differentiation trace at level \<open>l\<close> with primal \<open>p\<close> and tangent \<open>t\<close>;
  \<open>JaxprTracerV l a v\<close> a tracer of a staging trace at level \<open>l\<close> with abstract
  value \<open>a\<close>, standing for the staged variable \<open>v\<close>.
\<close>

datatype pyval =
    UnitV
  | ZeroV
  | NdarrayV "nat list" "int list"
  | ObjV string "int list"
  | StrV string
  | NoneV
  | TupleV "pyval list"
  | JVPTracerV nat pyval pyval
  | JaxprTracerV nat aval nat

text \<open>Python classes: those of values and those of abstract values.\<close>

datatype pytype =
    UnitT | ZeroT | NdarrayT | ObjT string | StrT | NoneTypeT | TupleT
  | JVPTracerT | JaxprTracerT
  | AbstractUnitT | ShapedArrayT | ConcreteArrayT | ObjAvalT string

type_synonym error = "pytype py_exc"

fun type_of :: "pyval \<Rightarrow> pytype" where
  "type_of UnitV = UnitT"
| "type_of ZeroV = ZeroT"
| "type_of (NdarrayV _ _) = NdarrayT"
| "type_of (ObjV c _) = ObjT c"
| "type_of (StrV _) = StrT"
| "type_of NoneV = NoneTypeT"
| "type_of (TupleV _) = TupleT"
| "type_of (JVPTracerV _ _ _) = JVPTracerT"
| "type_of (JaxprTracerV _ _ _) = JaxprTracerT"

fun aval_type :: "aval \<Rightarrow> pytype" where
  "aval_type AbstractUnit = AbstractUnitT"
| "aval_type (ShapedArray _) = ShapedArrayT"
| "aval_type (ConcreteArray _ _) = ConcreteArrayT"
| "aval_type (ObjAval c) = ObjAvalT c"

fun is_tracer :: "pyval \<Rightarrow> bool" where
  "is_tracer (JVPTracerV _ _ _) = True"
| "is_tracer (JaxprTracerV _ _ _) = True"
| "is_tracer _ = False"

subsection \<open>Abstract values of concrete values\<close>

text \<open>
  \<open>core.concrete_aval\<close> looks the class up in \<open>pytype_aval_mappings\<close> and raises
  \<open>TypeError\<close> for a class with no mapping; \<open>core.get_aval\<close> asks a tracer for
  its own abstract value (a differentiation tracer answers with that of its
  primal) and every other value \<open>concrete_aval\<close>.  \<open>core.valid_jaxtype\<close> is
  true exactly where \<open>concrete_aval\<close> does not raise.
\<close>

fun concrete_aval :: "pyval \<Rightarrow> error + aval" where
  "concrete_aval UnitV = Inr AbstractUnit"
| "concrete_aval (NdarrayV sh d) = Inr (ConcreteArray sh d)"
| "concrete_aval (ObjV c _) = Inr (ObjAval c)"
| "concrete_aval _ = Inl (TypeError ''not a valid JAX type'')"

fun get_aval :: "pyval \<Rightarrow> error + aval" where
  "get_aval (JVPTracerV _ p _) = get_aval p"
| "get_aval (JaxprTracerV _ a _) = Inr a"
| "get_aval x = concrete_aval x"

definition valid_jaxtype :: "pyval \<Rightarrow> bool" where
  "valid_jaxtype x = (case concrete_aval x of Inl _ \<Rightarrow> False | Inr _ \<Rightarrow> True)"

subsection \<open>The join of abstract values\<close>

text \<open>
  \<open>core.lattice_join\<close>: equal descriptors join to themselves; two array
  descriptors of one shape join to the shaped descriptor of that shape; any
  other pair raises \<open>TypeError\<close>.
\<close>

fun aval_shape :: "aval \<Rightarrow> nat list option" where
  "aval_shape (ShapedArray sh) = Some sh"
| "aval_shape (ConcreteArray sh _) = Some sh"
| "aval_shape _ = None"

definition lattice_join :: "aval \<Rightarrow> aval \<Rightarrow> error + aval" where
  "lattice_join a b =
     (if a = b then Inr a
      else (case (aval_shape a, aval_shape b) of
              (Some s1, Some s2) \<Rightarrow>
                if s1 = s2 then Inr (ShapedArray s1) else Inl (TypeError ''incompatible shapes'')
            | _ \<Rightarrow> Inl (TypeError ''incompatible abstract values'')))"

text \<open>
  \<open>core.raise_to_shaped\<close> forgets the data of a concrete array descriptor; two
  values have matching descriptors when their raised descriptors agree.
\<close>

fun raise_to_shaped :: "aval \<Rightarrow> aval" where
  "raise_to_shaped (ConcreteArray sh _) = ShapedArray sh"
| "raise_to_shaped a = a"

subsection \<open>Traces\<close>

text \<open>
  A trace of the interpreter stack is its kind and its level; a tracer knows
  its trace.  \<open>core.find_top_trace xs\<close> is the trace of highest level among the
  tracers in \<open>xs\<close> (the first one of that level, as Python's \<open>max\<close> returns it)
  and \<open>None\<close> when \<open>xs\<close> holds no tracer.
\<close>

datatype trace_kind = JVPTrace | JaxprTrace

datatype trace = Trace trace_kind nat

fun trace_level :: "trace \<Rightarrow> nat" where
  "trace_level (Trace _ l) = l"

fun tracer_trace :: "pyval \<Rightarrow> trace option" where
  "tracer_trace (JVPTracerV l _ _) = Some (Trace JVPTrace l)"
| "tracer_trace (JaxprTracerV l _ _) = Some (Trace JaxprTrace l)"
| "tracer_trace _ = None"

fun max_trace :: "trace option \<Rightarrow> trace list \<Rightarrow> trace option" where
  "max_trace acc [] = acc"
| "max_trace None (t # ts) = max_trace (Some t) ts"
| "max_trace (Some u) (t # ts) =
     max_trace (if trace_level u < trace_level t then Some t else Some u) ts"

definition find_top_trace :: "pyval list \<Rightarrow> trace option" where
  "find_top_trace xs = max_trace None (List.map_filter tracer_trace xs)"

text \<open>
  \<open>core.full_lower\<close>: a differentiation tracer whose tangent is the symbolic
  zero carries no derivative information and is lowered to its primal, again
  and again; every other value is returned as it is.
\<close>

fun full_lower :: "pyval \<Rightarrow> pyval" where
  "full_lower (JVPTracerV l p t) = (if t = ZeroV then full_lower p else JVPTracerV l p t)"
| "full_lower x = x"

subsection \<open>Facts about the collaborators\<close>

lemma max_trace_None_iff: "max_trace acc ts = None \<longleftrightarrow> acc = None \<and> ts = []"
  by (induction acc ts rule: max_trace.induct) auto

lemma tracer_trace_None_iff: "tracer_trace x = None \<longleftrightarrow> \<not> is_tracer x"
  by (cases x) simp_all

lemma tracer_trace_not_tracer [simp]: "\<not> is_tracer x \<Longrightarrow> tracer_trace x = None"
  by (simp add: tracer_trace_None_iff)

lemma find_top_trace_None_iff:
  "find_top_trace xs = None \<longleftrightarrow> (\<forall>x \<in> set xs. \<not> is_tracer x)"
  by (simp add: find_top_trace_def max_trace_None_iff map_filter_eq_Nil_iff tracer_trace_None_iff)

lemma find_top_trace_single [simp]: "find_top_trace [x] = tracer_trace x"
  by (cases "tracer_trace x") (simp_all add: find_top_trace_def map_filter_simps)

lemma full_lower_not_tracer [simp]: "\<not> is_tracer x \<Longrightarrow> full_lower x = x"
  by (cases x) simp_all

lemma valid_jaxtype_iff: "valid_jaxtype x \<longleftrightarrow> x = UnitV \<or> (\<exists>sh d. x = NdarrayV sh d) \<or> (\<exists>c fs. x = ObjV c fs)"
  by (cases x) (auto simp: valid_jaxtype_def)

lemma lattice_join_refl [simp]: "lattice_join a a = Inr a"
  by (simp add: lattice_join_def)

lemma lattice_join_commute_Inr:
  "lattice_join a b = Inr j \<Longrightarrow> lattice_join b a = Inr j"
  by (auto simp: lattice_join_def split: if_splits option.splits)

lemma aval_shape_raise: "aval_shape a = Some sh \<Longrightarrow> raise_to_shaped a = ShapedArray sh"
  by (cases a) simp_all

lemma lattice_join_raise:
  "lattice_join a b = Inr j \<Longrightarrow> raise_to_shaped j = raise_to_shaped a"
  by (auto simp: lattice_join_def aval_shape_raise split: if_splits option.splits)

lemma lattice_join_AbstractUnit:
  "lattice_join AbstractUnit b = Inr j \<longleftrightarrow> b = AbstractUnit \<and> j = AbstractUnit"
  by (cases b) (auto simp: lattice_join_def)

end
