(* ===== verification/Registry.thy ===== *)
theory Registry
  imports Core
begin

text \<open>
  The two type-keyed registries of \<^verbatim>\<open>jax/ad_util.py\<close> and the module state
  they form.  \<open>jaxval_adders\<close> maps the class of a value to its adder;
  \<open>jaxval_zeros_likers\<close> the class of a value and \<open>aval_zeros_likers\<close> the class of
  an abstract value to a constructor of the additive identity.  The three
  dictionaries are module globals, read at call time by the evaluation rules,
  so the model gathers them in the record \<open>ad_state\<close> and passes it to every
  operation that reads them.  Registering (\<open>jaxval_adders[T] = f\<close>, the
  statement the module itself runs for \<open>Unit\<close> and \<open>AbstractUnit\<close>) is a
  dictionary assignment.
\<close>

record ad_state =
  jaxval_adders :: "pytype \<rightharpoonup> (pyval \<Rightarrow> pyval \<Rightarrow> pyval)"
  jaxval_zeros_likers :: "pytype \<rightharpoonup> (pyval \<Rightarrow> pyval)"
  aval_zeros_likers :: "pytype \<rightharpoonup> (aval \<Rightarrow> pyval)"

subsection \<open>Module initialisation\<close>

definition jaxval_adders_init :: "pytype \<rightharpoonup> (pyval \<Rightarrow> pyval \<Rightarrow> pyval)" where
  "jaxval_adders_init = dict_setitem Map.empty UnitT (\<lambda>_ _. UnitV)"

definition jaxval_zeros_likers_init :: "pytype \<rightharpoonup> (pyval \<Rightarrow> pyval)" where
  "jaxval_zeros_likers_init = Map.empty"

definition aval_zeros_likers_init :: "pytype \<rightharpoonup> (aval \<Rightarrow> pyval)" where
  "aval_zeros_likers_init = dict_setitem Map.empty AbstractUnitT (\<lambda>_. UnitV)"

definition ad_util_init :: ad_state where
  "ad_util_init =
     \<lparr>jaxval_adders = jaxval_adders_init,
      jaxval_zeros_likers = jaxval_zeros_likers_init,
      aval_zeros_likers = aval_zeros_likers_init\<rparr>"

subsection \<open>Registration\<close>

definition register_jaxval_adder ::
  "ad_state \<Rightarrow> pytype \<Rightarrow> (pyval \<Rightarrow> pyval \<Rightarrow> pyval) \<Rightarrow> ad_state" where
  "register_jaxval_adder st T f = st\<lparr>jaxval_adders := dict_setitem (jaxval_adders st) T f\<rparr>"

definition register_jaxval_zeros_liker ::
  "ad_state \<Rightarrow> pytype \<Rightarrow> (pyval \<Rightarrow> pyval) \<Rightarrow> ad_state" where
  "register_jaxval_zeros_liker st T g =
     st\<lparr>jaxval_zeros_likers := dict_setitem (jaxval_zeros_likers st) T g\<rparr>"

definition register_aval_zeros_liker ::
  "ad_state \<Rightarrow> pytype \<Rightarrow> (aval \<Rightarrow> pyval) \<Rightarrow> ad_state" where
  "register_aval_zeros_liker st T g =
     st\<lparr>aval_zeros_likers := dict_setitem (aval_zeros_likers st) T g\<rparr>"

text \<open>
  A sequence of registrations, in program order, as one step per entry; this
  is what extension modules do at import time.
\<close>

datatype registration =
    AdderReg pytype "pyval \<Rightarrow> pyval \<Rightarrow> pyval"
  | JaxvalZerosReg pytype "pyval \<Rightarrow> pyval"
  | AvalZerosReg pytype "aval \<Rightarrow> pyval"

fun register :: "ad_state \<Rightarrow> registration \<Rightarrow> ad_state" where
  "register st (AdderReg T f) = register_jaxval_adder st T f"
| "register st (JaxvalZerosReg T g) = register_jaxval_zeros_liker st T g"
| "register st (AvalZerosReg T g) = register_aval_zeros_liker st T g"

definition register_all :: "ad_state \<Rightarrow> registration list \<Rightarrow> ad_state" where
  "register_all st regs = foldl register st regs"

text \<open>
  What a sequence of registrations registers: the entries of each registry in
  program order, and the registry and key each registration writes.
\<close>

fun adder_regs :: "registration list \<Rightarrow> (pytype \<times> (pyval \<Rightarrow> pyval \<Rightarrow> pyval)) list" where
  "adder_regs [] = []"
| "adder_regs (AdderReg T f # rs) = (T, f) # adder_regs rs"
| "adder_regs (_ # rs) = adder_regs rs"

fun jaxval_zeros_regs :: "registration list \<Rightarrow> (pytype \<times> (pyval \<Rightarrow> pyval)) list" where
  "jaxval_zeros_regs [] = []"
| "jaxval_zeros_regs (JaxvalZerosReg T g # rs) = (T, g) # jaxval_zeros_regs rs"
| "jaxval_zeros_regs (_ # rs) = jaxval_zeros_regs rs"

fun aval_zeros_regs :: "registration list \<Rightarrow> (pytype \<times> (aval \<Rightarrow> pyval)) list" where
  "aval_zeros_regs [] = []"
| "aval_zeros_regs (AvalZerosReg T g # rs) = (T, g) # aval_zeros_regs rs"
| "aval_zeros_regs (_ # rs) = aval_zeros_regs rs"

datatype reg_kind = AdderK | JaxvalZerosK | AvalZerosK

fun reg_target :: "registration \<Rightarrow> reg_kind \<times> pytype" where
  "reg_target (AdderReg T _) = (AdderK, T)"
| "reg_target (JaxvalZerosReg T _) = (JaxvalZerosK, T)"
| "reg_target (AvalZerosReg T _) = (AvalZerosK, T)"

lemma register_all_Nil [simp]: "register_all st [] = st"
  by (simp add: register_all_def)

lemma register_all_snoc [simp]:
  "register_all st (rs @ [r]) = register (register_all st rs) r"
  by (simp add: register_all_def)

lemma regs_append [simp]:
  "adder_regs (rs @ qs) = adder_regs rs @ adder_regs qs"
  "jaxval_zeros_regs (rs @ qs) = jaxval_zeros_regs rs @ jaxval_zeros_regs qs"
  "aval_zeros_regs (rs @ qs) = aval_zeros_regs rs @ aval_zeros_regs qs"
  by (induction rs rule: adder_regs.induct) simp_all

lemmas register_defs =
  register_jaxval_adder_def register_jaxval_zeros_liker_def register_aval_zeros_liker_def

lemma register_field_simps [simp]:
  "jaxval_adders (register_jaxval_adder st T f) = (jaxval_adders st)(T \<mapsto> f)"
  "jaxval_zeros_likers (register_jaxval_adder st T f) = jaxval_zeros_likers st"
  "aval_zeros_likers (register_jaxval_adder st T f) = aval_zeros_likers st"
  "jaxval_adders (register_jaxval_zeros_liker st T g) = jaxval_adders st"
  "jaxval_zeros_likers (register_jaxval_zeros_liker st T g) = (jaxval_zeros_likers st)(T \<mapsto> g)"
  "aval_zeros_likers (register_jaxval_zeros_liker st T g) = aval_zeros_likers st"
  "jaxval_adders (register_aval_zeros_liker st T h) = jaxval_adders st"
  "jaxval_zeros_likers (register_aval_zeros_liker st T h) = jaxval_zeros_likers st"
  "aval_zeros_likers (register_aval_zeros_liker st T h) = (aval_zeros_likers st)(T \<mapsto> h)"
  by (simp_all add: register_defs dict_setitem_def)

lemma register_all_registries:
  "jaxval_adders (register_all st regs) = jaxval_adders st ++ map_of (rev (adder_regs regs))"
  "jaxval_zeros_likers (register_all st regs) = jaxval_zeros_likers st ++ map_of (rev (jaxval_zeros_regs regs))"
  "aval_zeros_likers (register_all st regs) = aval_zeros_likers st ++ map_of (rev (aval_zeros_regs regs))"
proof -
  have "jaxval_adders (register_all st regs) = jaxval_adders st ++ map_of (rev (adder_regs regs))
      \<and> jaxval_zeros_likers (register_all st regs) = jaxval_zeros_likers st ++ map_of (rev (jaxval_zeros_regs regs))
      \<and> aval_zeros_likers (register_all st regs) = aval_zeros_likers st ++ map_of (rev (aval_zeros_regs regs))"
  proof (induction regs rule: rev_induct)
    case (snoc r regs)
    then show ?case by (cases r) (auto simp: fun_eq_iff map_add_def split: option.split)
  qed simp
  then show "jaxval_adders (register_all st regs) = jaxval_adders st ++ map_of (rev (adder_regs regs))"
    and "jaxval_zeros_likers (register_all st regs) = jaxval_zeros_likers st ++ map_of (rev (jaxval_zeros_regs regs))"
    and "aval_zeros_likers (register_all st regs) = aval_zeros_likers st ++ map_of (rev (aval_zeros_regs regs))"
    by simp_all
qed

lemma map_of_rev_regs_None:
  "(JaxvalZerosK, T) \<notin> reg_target ` set regs \<Longrightarrow> map_of (rev (jaxval_zeros_regs regs)) T = None"
  "(AvalZerosK, T) \<notin> reg_target ` set regs \<Longrightarrow> map_of (rev (aval_zeros_regs regs)) T = None"
  "(AdderK, T) \<notin> reg_target ` set regs \<Longrightarrow> map_of (rev (adder_regs regs)) T = None"
  by (induction regs rule: adder_regs.induct; force)+

lemma set_regs_sound:
  "(T, f) \<in> set (adder_regs regs) \<Longrightarrow> AdderReg T f \<in> set regs"
  "(T, g) \<in> set (jaxval_zeros_regs regs) \<Longrightarrow> JaxvalZerosReg T g \<in> set regs"
  "(T, h) \<in> set (aval_zeros_regs regs) \<Longrightarrow> AvalZerosReg T h \<in> set regs"
  by (induction regs rule: adder_regs.induct; force)+

lemma register_all_entry:
  "jaxval_adders (register_all st regs) T = Some f \<Longrightarrow>
     jaxval_adders st T = Some f \<or> (T, f) \<in> set (adder_regs regs)"
  "jaxval_zeros_likers (register_all st regs) T = Some g \<Longrightarrow>
     jaxval_zeros_likers st T = Some g \<or> (T, g) \<in> set (jaxval_zeros_regs regs)"
  "aval_zeros_likers (register_all st regs) T = Some h \<Longrightarrow>
     aval_zeros_likers st T = Some h \<or> (T, h) \<in> set (aval_zeros_regs regs)"
  by (auto simp: register_all_registries map_add_def split: option.splits dest: map_of_SomeD)

end
