(* ===== verification/Primitive.thy ===== *)
theory Primitive
  imports Core
begin

text \<open>
  The operation descriptor \<open>core.Primitive\<close> of \<^verbatim>\<open>jax/core.py\<close>, as ad_util uses it:
  a name and three pluggable hooks, the concrete evaluation rule (\<open>def_impl\<close>),
  the abstract evaluation rule (\<open>def_abstract_eval\<close>) and an optional binding
  rule that replaces the standard one (\<open>def_custom_bind\<close>).  The descriptor is
  polymorphic in the interpreter state \<open>'s\<close> that binding threads: ad_util
  never inspects that state, it only passes it on.

  A custom binding rule receives the hook \<open>process\<close>, which stands for
  \<open>top_trace.process_primitive(p, tracers, {})\<close> of this very primitive \<open>p\<close> on
  a given trace; the interpreter (theory \<open>Interp\<close>) supplies it.  A binding
  function (\<open>'s bind_fn\<close>) is \<open>p.bind(*args)\<close>: it takes the descriptor, the
  positional arguments and the interpreter state and returns the result and
  the new state, or the exception raised.
\<close>

type_synonym 's process_fn = "trace \<Rightarrow> pyval list \<Rightarrow> 's \<Rightarrow> error + (pyval \<times> 's)"

record 's primitive =
  prim_name :: string
  impl :: "pyval list \<Rightarrow> error + pyval"
  abstract_eval :: "aval list \<Rightarrow> error + aval"
  custom_bind :: "('s process_fn \<Rightarrow> pyval list \<Rightarrow> 's \<Rightarrow> error + (pyval \<times> 's)) option"

type_synonym 's bind_fn = "'s primitive \<Rightarrow> pyval list \<Rightarrow> 's \<Rightarrow> error + (pyval \<times> 's)"

text \<open>
  \<open>Primitive(name)\<close>: before \<open>def_impl\<close> and \<open>def_abstract_eval\<close> the rules raise
  \<open>NotImplementedError\<close>.
\<close>

definition new_primitive :: "string \<Rightarrow> 's primitive" where
  "new_primitive name =
     \<lparr>prim_name = name,
      impl = (\<lambda>_. Inl (NotImplementedError ''Evaluation rule not implemented'')),
      abstract_eval = (\<lambda>_. Inl (NotImplementedError ''Abstract evaluation not implemented'')),
      custom_bind = None\<rparr>"

definition def_impl :: "'s primitive \<Rightarrow> (pyval list \<Rightarrow> error + pyval) \<Rightarrow> 's primitive" where
  "def_impl p f = p\<lparr>impl := f\<rparr>"

definition def_abstract_eval :: "'s primitive \<Rightarrow> (aval list \<Rightarrow> error + aval) \<Rightarrow> 's primitive" where
  "def_abstract_eval p f = p\<lparr>abstract_eval := f\<rparr>"

definition def_custom_bind ::
  "'s primitive \<Rightarrow> ('s process_fn \<Rightarrow> pyval list \<Rightarrow> 's \<Rightarrow> error + (pyval \<times> 's)) \<Rightarrow> 's primitive" where
  "def_custom_bind p f = p\<lparr>custom_bind := Some f\<rparr>"

text \<open>
  Calling a Python function of one or two positional parameters with a list of
  arguments: any other number of arguments raises \<open>TypeError\<close>.
\<close>

fun call1 :: "('a \<Rightarrow> error + 'b) \<Rightarrow> 'a list \<Rightarrow> error + 'b" where
  "call1 f [a] = f a"
| "call1 f _ = Inl (TypeError ''takes 1 positional argument'')"

fun call2 :: "('a \<Rightarrow> 'a \<Rightarrow> error + 'b) \<Rightarrow> 'a list \<Rightarrow> error + 'b" where
  "call2 f [a, b] = f a b"
| "call2 f _ = Inl (TypeError ''takes 2 positional arguments'')"

lemma primitive_hooks [simp]:
  "prim_name (new_primitive n) = n"
  "custom_bind (new_primitive n) = None"
  "prim_name (def_impl p f) = prim_name p" "impl (def_impl p f) = f"
  "abstract_eval (def_impl p f) = abstract_eval p" "custom_bind (def_impl p f) = custom_bind p"
  "prim_name (def_abstract_eval p g) = prim_name p" "impl (def_abstract_eval p g) = impl p"
  "abstract_eval (def_abstract_eval p g) = g" "custom_bind (def_abstract_eval p g) = custom_bind p"
  "prim_name (def_custom_bind p h) = prim_name p" "impl (def_custom_bind p h) = impl p"
  "abstract_eval (def_custom_bind p h) = abstract_eval p" "custom_bind (def_custom_bind p h) = Some h"
  by (simp_all add: new_primitive_def def_impl_def def_abstract_eval_def def_custom_bind_def)

lemma call1_Inl:
  "call1 f args = Inl e \<Longrightarrow> e = TypeError ''takes 1 positional argument'' \<or> (\<exists>a. f a = Inl e)"
  by (induction f args rule: call1.induct) auto

lemma call2_Inl:
  "call2 f args = Inl e \<Longrightarrow> e = TypeError ''takes 2 positional arguments'' \<or> (\<exists>a b. f a b = Inl e)"
  by (induction f args rule: call2.induct) auto

lemma call1_Inr: "call1 f args = Inr v \<Longrightarrow> \<exists>a. args = [a] \<and> f a = Inr v"
  by (induction f args rule: call1.induct) auto

lemma call2_Inr: "call2 f args = Inr v \<Longrightarrow> \<exists>a b. args = [a, b] \<and> f a b = Inr v"
  by (induction f args rule: call2.induct) auto

end
