(* ===== verification/AddJaxvals.thy ===== *)
theory AddJaxvals
  imports Registry Primitive
begin

text \<open>
  The additive-combination operation of \<^verbatim>\<open>jax/ad_util.py\<close>: the public entry
  \<open>add_jaxvals\<close>, which short-circuits on two no-data values and otherwise
  binds the primitive \<open>add_jaxvals_p\<close> (\<open>'add_any'\<close>); its evaluation rule
  \<open>add_impl\<close>, which dispatches on the class of the first operand through
  \<open>jaxval_adders\<close>; and its abstract rule \<open>add_abstract\<close>, the join of the two
  descriptors.  \<open>add_jaxvals\<close> is stated over any binding function, so its
  lemmas hold whatever interpreter binds the primitive.
\<close>

definition add_impl :: "ad_state \<Rightarrow> pyval \<Rightarrow> pyval \<Rightarrow> error + pyval" where
  "add_impl st xs ys = res_map (\<lambda>adder. adder xs ys) (dict_getitem (jaxval_adders st) (type_of xs))"

definition add_abstract :: "aval \<Rightarrow> aval \<Rightarrow> error + aval" where
  "add_abstract xs ys = lattice_join xs ys"

definition add_jaxvals_p :: "ad_state \<Rightarrow> 's primitive" where
  "add_jaxvals_p st =
     def_abstract_eval (def_impl (new_primitive ''add_any'') (call2 (add_impl st))) (call2 add_abstract)"

text \<open>
  \<open>core.get_aval(x) is core.get_aval(y) is core.abstract_unit\<close> evaluates both
  descriptors (either call may raise) and is Python's chained comparison
  \<open>ax is ay and ay is abstract_unit\<close>.
\<close>

definition add_jaxvals :: "'s bind_fn \<Rightarrow> ad_state \<Rightarrow> pyval \<Rightarrow> pyval \<Rightarrow> 's \<Rightarrow> error + (pyval \<times> 's)" where
  "add_jaxvals bind st x y s =
     res_bind (get_aval x) (\<lambda>ax. res_bind (get_aval y) (\<lambda>ay.
       if ax = ay \<and> ay = AbstractUnit then Inr (UnitV, s)
       else bind (add_jaxvals_p st) [x, y] s))"

text \<open>
  The registry contract of the specification: an adder registered for a class
  accepts two operands whose descriptors join, the first of that class, and
  returns a value whose descriptor matches their join.  Under this
  invariant the abstract rule is sound for the evaluation rule.
\<close>

definition adder_sound :: "pytype \<Rightarrow> (pyval \<Rightarrow> pyval \<Rightarrow> pyval) \<Rightarrow> bool" where
  "adder_sound T f =
     (\<forall>x y ax ay j. type_of x = T \<longrightarrow> get_aval x = Inr ax \<longrightarrow> get_aval y = Inr ay \<longrightarrow>
        lattice_join ax ay = Inr j \<longrightarrow>
        (\<exists>a. get_aval (f x y) = Inr a \<and> raise_to_shaped a = raise_to_shaped j))"

definition adders_sound :: "ad_state \<Rightarrow> bool" where
  "adders_sound st = (\<forall>T f. jaxval_adders st T = Some f \<longrightarrow> adder_sound T f)"

lemma add_jaxvals_p_hooks [simp]:
  "prim_name (add_jaxvals_p st) = ''add_any''"
  "impl (add_jaxvals_p st) = call2 (add_impl st)"
  "abstract_eval (add_jaxvals_p st) = call2 add_abstract"
  "custom_bind (add_jaxvals_p st) = None"
  by (simp_all add: add_jaxvals_p_def)

lemma adder_sound_unit: "adder_sound UnitT (\<lambda>_ _. UnitV)"
proof -
  have "x = UnitV" if "type_of x = UnitT" for x
    using that by (cases x) simp_all
  then show ?thesis
    by (fastforce simp: adder_sound_def lattice_join_AbstractUnit)
qed

subsection \<open>Behaviour\<close>

lemma add_impl_registered [res_simps]:
  "jaxval_adders st (type_of xs) = Some f \<Longrightarrow> add_impl st xs ys = Inr (f xs ys)"
  by (simp add: add_impl_def)

lemma add_impl_unregistered [res_simps]:
  "jaxval_adders st (type_of xs) = None \<Longrightarrow> add_impl st xs ys = Inl (KeyError (type_of xs))"
  by (simp add: add_impl_def)

lemma add_jaxvals_binds:
  assumes "get_aval x = Inr ax" and "get_aval y = Inr ay"
    and "\<not> (ax = AbstractUnit \<and> ay = AbstractUnit)"
  shows "add_jaxvals bind st x y s = bind (add_jaxvals_p st) [x, y] s"
  using assms by (auto simp: add_jaxvals_def)

lemma add_jaxvals_first_aval_error:
  "get_aval x = Inl e \<Longrightarrow> add_jaxvals bind st x y s = Inl e"
  by (simp add: add_jaxvals_def)

text \<open>C2: when both operands have the no-data descriptor, the result is the
  canonical no-data value, whatever adders are registered and whatever binds
  primitives, and the interpreter state is untouched: no primitive is bound.\<close>

theorem add_jaxvals_unit_short_circuit:
  assumes "get_aval x = Inr AbstractUnit" and "get_aval y = Inr AbstractUnit"
  shows "add_jaxvals bind st x y s = Inr (UnitV, s)"
  using assms by (simp add: add_jaxvals_def)

text \<open>C15: the module registers no adder for the symbolic zero and the zero has
  no descriptor, so combining it raises \<open>TypeError\<close> before any dispatch,
  whatever the other operand.\<close>

theorem add_jaxvals_zero_raises:
  "\<exists>msg. add_jaxvals bind st ZeroV y s = Inl (TypeError msg)"
  by (simp add: add_jaxvals_def)

lemma adders_sound_init: "adders_sound ad_util_init"
  using adder_sound_unit
  by (simp add: adders_sound_def ad_util_init_def jaxval_adders_init_def)

lemma adders_sound_register:
  assumes "adders_sound st" and "\<forall>T f. r = AdderReg T f \<longrightarrow> adder_sound T f"
  shows "adders_sound (register st r)"
  using assms by (cases r) (auto simp: adders_sound_def)

text \<open>C17: the abstract rule of \<open>add_any\<close> is sound for its evaluation rule: when
  every registered adder keeps the registry contract, the descriptor of any
  value \<open>add_impl\<close> returns matches the join that \<open>add_abstract\<close> computes
  (they agree once raised to shaped descriptors).\<close>

theorem add_impl_abstract_sound:
  assumes "adders_sound st"
    and "get_aval x = Inr ax" and "get_aval y = Inr ay" and "add_abstract ax ay = Inr j"
    and "add_impl st x y = Inr r"
  shows "\<exists>a. get_aval r = Inr a \<and> raise_to_shaped a = raise_to_shaped j"
proof -
  from assms(5) obtain f where f: "jaxval_adders st (type_of x) = Some f" and r: "r = f x y"
    by (cases "jaxval_adders st (type_of x)") (auto simp: add_impl_def)
  from assms(1) f have "adder_sound (type_of x) f" by (simp add: adders_sound_def)
  with assms(2-4) r show ?thesis by (simp add: adder_sound_def add_abstract_def)
qed

end
