(* ===== verification/ZerosLike.thy ===== *)
theory ZerosLike
  imports Registry Primitive
begin

text \<open>
  The additive-identity operation of \<^verbatim>\<open>jax/ad_util.py\<close>, on its two lookup paths:
  \<open>zeros_like_aval\<close> dispatches eagerly on the class of an abstract value
  through \<open>aval_zeros_likers\<close>, a plain call that no trace intercepts;
  \<open>zeros_like_jaxval\<close> binds the primitive \<open>zeros_like_p\<close>, whose evaluation rule
  \<open>zeros_like_impl\<close> dispatches on the class of an example value through
  \<open>jaxval_zeros_likers\<close> and whose abstract rule is the identity.  Both
  registries carry a contract (\<open>aval_zeros_liker_sound\<close>,
  \<open>zeros_liker_sound\<close>): the identity built has a descriptor matching the
  given descriptor or example; under the contracts the lookups are sound for
  the abstract rule.
\<close>

definition zeros_like_aval :: "ad_state \<Rightarrow> aval \<Rightarrow> error + pyval" where
  "zeros_like_aval st aval =
     res_map (\<lambda>zeros_liker. zeros_liker aval) (dict_getitem (aval_zeros_likers st) (aval_type aval))"

definition zeros_like_impl :: "ad_state \<Rightarrow> pyval \<Rightarrow> error + pyval" where
  "zeros_like_impl st example =
     res_map (\<lambda>zeros_liker. zeros_liker example)
       (dict_getitem (jaxval_zeros_likers st) (type_of example))"

definition zeros_like_abstract :: "aval \<Rightarrow> error + aval" where
  "zeros_like_abstract x = Inr x"

definition zeros_like_p :: "ad_state \<Rightarrow> 's primitive" where
  "zeros_like_p st =
     def_abstract_eval (def_impl (new_primitive ''zeros_like'') (call1 (zeros_like_impl st)))
       (call1 zeros_like_abstract)"

definition zeros_like_jaxval :: "'s bind_fn \<Rightarrow> ad_state \<Rightarrow> pyval \<Rightarrow> 's \<Rightarrow> error + (pyval \<times> 's)" where
  "zeros_like_jaxval bind st val s = bind (zeros_like_p st) [val] s"

text \<open>
  The registry contract for identity constructors: the value built for a
  descriptor of the registered class has a matching descriptor.
\<close>

definition aval_zeros_liker_sound :: "pytype \<Rightarrow> (aval \<Rightarrow> pyval) \<Rightarrow> bool" where
  "aval_zeros_liker_sound T g =
     (\<forall>a. aval_type a = T \<longrightarrow> (\<exists>b. get_aval (g a) = Inr b \<and> raise_to_shaped b = raise_to_shaped a))"

text \<open>
  The contract for identity constructors of example values: the value built
  from an example of the registered class has a descriptor matching the
  example's, which is what the identity abstract rule of \<open>zeros_like_p\<close>
  promises.
\<close>

definition zeros_liker_sound :: "pytype \<Rightarrow> (pyval \<Rightarrow> pyval) \<Rightarrow> bool" where
  "zeros_liker_sound T g =
     (\<forall>x a. type_of x = T \<longrightarrow> get_aval x = Inr a \<longrightarrow>
        (\<exists>b. get_aval (g x) = Inr b \<and> raise_to_shaped b = raise_to_shaped a))"

lemma zeros_like_p_hooks [simp]:
  "prim_name (zeros_like_p st) = ''zeros_like''"
  "impl (zeros_like_p st) = call1 (zeros_like_impl st)"
  "abstract_eval (zeros_like_p st) = call1 zeros_like_abstract"
  "custom_bind (zeros_like_p st) = None"
  by (simp_all add: zeros_like_p_def)

lemma zeros_like_aval_registered [res_simps]:
  "aval_zeros_likers st (aval_type a) = Some g \<Longrightarrow> zeros_like_aval st a = Inr (g a)"
  by (simp add: zeros_like_aval_def)

lemma zeros_like_aval_unregistered [res_simps]:
  "aval_zeros_likers st (aval_type a) = None \<Longrightarrow> zeros_like_aval st a = Inl (KeyError (aval_type a))"
  by (simp add: zeros_like_aval_def)

lemma zeros_like_impl_registered [res_simps]:
  "jaxval_zeros_likers st (type_of x) = Some g \<Longrightarrow> zeros_like_impl st x = Inr (g x)"
  by (simp add: zeros_like_impl_def)

lemma zeros_like_impl_unregistered [res_simps]:
  "jaxval_zeros_likers st (type_of x) = None \<Longrightarrow> zeros_like_impl st x = Inl (KeyError (type_of x))"
  by (simp add: zeros_like_impl_def)

lemma aval_type_AbstractUnitT: "aval_type a = AbstractUnitT \<longleftrightarrow> a = AbstractUnit"
  by (cases a) simp_all

lemma aval_zeros_liker_sound_unit: "aval_zeros_liker_sound AbstractUnitT (\<lambda>_. UnitV)"
  by (simp add: aval_zeros_liker_sound_def aval_type_AbstractUnitT)

text \<open>C4: the no-data descriptor is pre-registered: on every registry built from
  the module's initial one by registrations that do not replace the entry
  for \<open>AbstractUnit\<close>, the identity for the no-data descriptor is the
  canonical no-data value.\<close>

theorem zeros_like_aval_abstract_unit:
  assumes "(AvalZerosK, AbstractUnitT) \<notin> reg_target ` set regs"
  shows "zeros_like_aval (register_all ad_util_init regs) AbstractUnit = Inr UnitV"
proof -
  have "aval_zeros_likers (register_all ad_util_init regs) AbstractUnitT = Some (\<lambda>_. UnitV)"
    using map_of_rev_regs_None(2) [OF assms]
    by (simp add: register_all_registries ad_util_init_def aval_zeros_likers_init_def map_add_def)
  then show ?thesis by (simp add: zeros_like_aval_registered)
qed

text \<open>C18: whatever identity constructors are registered, as long as each keeps
  the registry contract, the identity \<open>zeros_like_aval\<close> builds for a
  descriptor has a matching descriptor.\<close>

theorem zeros_like_aval_sound:
  assumes "\<forall>(T, g) \<in> set (aval_zeros_regs regs). aval_zeros_liker_sound T g"
    and "zeros_like_aval (register_all ad_util_init regs) a = Inr z"
  shows "\<exists>b. get_aval z = Inr b \<and> raise_to_shaped b = raise_to_shaped a"
proof -
  from assms(2) obtain g
    where g: "aval_zeros_likers (register_all ad_util_init regs) (aval_type a) = Some g"
      and z: "z = g a"
    by (cases "aval_zeros_likers (register_all ad_util_init regs) (aval_type a)")
       (auto simp: zeros_like_aval_def)
  have "aval_zeros_liker_sound (aval_type a) g"
    using register_all_entry(3) [OF g] assms(1) aval_zeros_liker_sound_unit
    by (auto simp: ad_util_init_def aval_zeros_likers_init_def split: if_splits)
  with z show ?thesis by (simp add: aval_zeros_liker_sound_def)
qed


text \<open>C23: the abstract rule of \<open>zeros_like\<close> (the identity) is sound for its
  evaluation rule: on a registry built from the module's initial one by
  registering identity constructors that keep the contract, the value
  \<open>zeros_like_impl\<close> returns for an example has a descriptor matching the one
  the abstract rule gives for the example's descriptor.\<close>

theorem zeros_like_impl_abstract_sound:
  assumes "\<forall>(T, g) \<in> set (jaxval_zeros_regs regs). zeros_liker_sound T g"
    and "get_aval x = Inr a" and "zeros_like_abstract a = Inr a'"
    and "zeros_like_impl (register_all ad_util_init regs) x = Inr z"
  shows "\<exists>b. get_aval z = Inr b \<and> raise_to_shaped b = raise_to_shaped a'"
proof -
  from assms(4) obtain g
    where g: "jaxval_zeros_likers (register_all ad_util_init regs) (type_of x) = Some g"
      and z: "z = g x"
    by (cases "jaxval_zeros_likers (register_all ad_util_init regs) (type_of x)")
       (auto simp: zeros_like_impl_def)
  have "zeros_liker_sound (type_of x) g"
    using register_all_entry(2) [OF g] assms(1)
    by (auto simp: ad_util_init_def jaxval_zeros_likers_init_def)
  with assms(2,3) z show ?thesis by (simp add: zeros_liker_sound_def zeros_like_abstract_def)
qed

end
