(* ===== verification/SymbolicZero.thy ===== *)
theory SymbolicZero
  imports Core
begin

text \<open>
  The symbolic zero of \<^verbatim>\<open>jax/ad_util.py\<close>: the class \<open>Zero\<close> with its \<open>__repr__\<close>,
  the module-wide instance \<open>zero\<close>, and its registration with the
  tree-decomposition protocol of \<^verbatim>\<open>jax/tree_util.py\<close>.  The protocol itself is a
  collaborator, modelled here from its interface: a registry from classes to
  node handlers (a flatten function giving the children and an auxiliary
  datum, an unflatten function rebuilding the node), with the built-in nodes
  \<open>tuple\<close> and \<open>None\<close>, and \<open>tree_flatten\<close>/\<open>tree_unflatten\<close> over it.  Flattening
  recurses through the children that registered handlers return; it runs on a
  recursion budget and raises \<open>RecursionError\<close> when the budget is spent.
\<close>

subsection \<open>The class Zero and its instance\<close>

definition Zero_repr :: "pyval \<Rightarrow> string" where
  "Zero_repr self = ''Zero''"

definition zero :: pyval where
  "zero = ZeroV"

subsection \<open>The tree-decomposition protocol\<close>

record pytree_node =
  node_flatten :: "pyval \<Rightarrow> pyval list \<times> pyval"
  node_unflatten :: "pyval \<Rightarrow> pyval list \<Rightarrow> pyval"

type_synonym pytree_registry = "pytype \<rightharpoonup> pytree_node"

text \<open>A tree definition records, for each node, its handler and auxiliary datum.\<close>

datatype treedef = LeafDef | NodeDef pytree_node pyval "treedef list"

definition register_pytree_node ::
  "pytree_registry \<Rightarrow> pytype \<Rightarrow> (pyval \<Rightarrow> pyval list \<times> pyval) \<Rightarrow> (pyval \<Rightarrow> pyval list \<Rightarrow> pyval)
     \<Rightarrow> pytree_registry" where
  "register_pytree_node reg T flatten unflatten =
     reg(T \<mapsto> \<lparr>node_flatten = flatten, node_unflatten = unflatten\<rparr>)"

fun tuple_flatten :: "pyval \<Rightarrow> pyval list \<times> pyval" where
  "tuple_flatten (TupleV xs) = (xs, NoneV)"
| "tuple_flatten _ = ([], NoneV)"

definition tree_util_init :: pytree_registry where
  "tree_util_init =
     register_pytree_node
       (register_pytree_node Map.empty TupleT tuple_flatten (\<lambda>_ xs. TupleV xs))
       NoneTypeT (\<lambda>_. ([], NoneV)) (\<lambda>_ _. NoneV)"

text \<open>The registration of \<open>Zero\<close>: no children, \<open>None\<close> as auxiliary datum, and
  unflattening gives back the shared instance whatever it is given.\<close>

definition zero_flatten :: "pyval \<Rightarrow> pyval list \<times> pyval" where
  "zero_flatten z = ([], NoneV)"

definition zero_unflatten :: "pyval \<Rightarrow> pyval list \<Rightarrow> pyval" where
  "zero_unflatten aux xs = zero"

definition ad_util_pytrees :: pytree_registry where
  "ad_util_pytrees = register_pytree_node tree_util_init ZeroT zero_flatten zero_unflatten"

fun tree_flatten :: "nat \<Rightarrow> pytree_registry \<Rightarrow> pyval \<Rightarrow> error + (pyval list \<times> treedef)"
and tree_flatten_list :: "nat \<Rightarrow> pytree_registry \<Rightarrow> pyval list \<Rightarrow> error + (pyval list \<times> treedef list)"
where
  "tree_flatten 0 reg x = Inl RecursionError"
| "tree_flatten (Suc n) reg x =
     (case reg (type_of x) of
        None \<Rightarrow> Inr ([x], LeafDef)
      | Some node \<Rightarrow>
          (case node_flatten node x of
             (children, aux) \<Rightarrow>
               res_map (\<lambda>(leaves, defs). (leaves, NodeDef node aux defs))
                 (tree_flatten_list n reg children)))"
| "tree_flatten_list n reg [] = Inr ([], [])"
| "tree_flatten_list n reg (c # cs) =
     res_bind (tree_flatten n reg c) (\<lambda>(ls, d).
       res_map (\<lambda>(lss, ds). (ls @ lss, d # ds)) (tree_flatten_list n reg cs))"

fun unflatten_def :: "treedef \<Rightarrow> pyval list \<Rightarrow> error + (pyval \<times> pyval list)"
and unflatten_defs :: "treedef list \<Rightarrow> pyval list \<Rightarrow> error + (pyval list \<times> pyval list)"
where
  "unflatten_def LeafDef [] = Inl (ValueError ''Too few leaves for PyTreeDef'')"
| "unflatten_def LeafDef (l # ls) = Inr (l, ls)"
| "unflatten_def (NodeDef node aux defs) ls =
     res_map (\<lambda>(children, rest). (node_unflatten node aux children, rest)) (unflatten_defs defs ls)"
| "unflatten_defs [] ls = Inr ([], ls)"
| "unflatten_defs (d # ds) ls =
     res_bind (unflatten_def d ls) (\<lambda>(x, rest).
       res_map (\<lambda>(xs, rest'). (x # xs, rest')) (unflatten_defs ds rest))"

definition tree_unflatten :: "treedef \<Rightarrow> pyval list \<Rightarrow> error + pyval" where
  "tree_unflatten d leaves =
     res_bind (unflatten_def d leaves) (\<lambda>(x, rest).
       if rest = [] then Inr x else Inl (ValueError ''Too many leaves for PyTreeDef''))"

text \<open>
  The contract of a node handler: unflattening what flattening returned gives
  back the value.  \<open>tree_depth\<close> is the nesting depth of a value as a tree of
  the registered nodes \<open>tuple\<close>, \<open>None\<close> and \<open>Zero\<close>; it bounds the recursion
  budget flattening needs.
\<close>

definition pytrees_ok :: "pytree_registry \<Rightarrow> bool" where
  "pytrees_ok reg =
     (\<forall>T node x. reg T = Some node \<longrightarrow> type_of x = T \<longrightarrow>
        node_unflatten node (snd (node_flatten node x)) (fst (node_flatten node x)) = x)"

fun tree_depth :: "pyval \<Rightarrow> nat" where
  "tree_depth (TupleV xs) = Suc (Max (set (0 # map tree_depth xs)))"
| "tree_depth _ = 1"

text \<open>
  A reference for the leaves of a value over the registry of ad_util, by
  structural recursion: a tuple contributes the leaves of its items, \<open>None\<close>
  and the symbolic zero contribute none, every other value is a leaf.
\<close>

fun leaves_ref :: "pyval \<Rightarrow> pyval list" where
  "leaves_ref (TupleV xs) = concat (map leaves_ref xs)"
| "leaves_ref NoneV = []"
| "leaves_ref ZeroV = []"
| "leaves_ref x = [x]"

subsection \<open>Round trip\<close>

lemma tree_flatten_unflatten:
  "tree_flatten n reg x = Inr (ls, d) \<Longrightarrow> pytrees_ok reg \<Longrightarrow>
     unflatten_def d (ls @ rest) = Inr (x, rest)"
  "tree_flatten_list n reg xs = Inr (ls, ds) \<Longrightarrow> pytrees_ok reg \<Longrightarrow>
     unflatten_defs ds (ls @ rest) = Inr (xs, rest)"
proof (induction n reg x and n reg xs arbitrary: ls d rest and ls ds rest
       rule: tree_flatten_tree_flatten_list.induct)
  case (2 n reg x)
  show ?case
  proof (cases "reg (type_of x)")
    case None
    with "2.prems" show ?thesis by auto
  next
    case (Some node)
    obtain children aux where fl: "node_flatten node x = (children, aux)" by fastforce
    from "2.prems"(1) Some fl obtain defs where
      rec: "tree_flatten_list n reg children = Inr (ls, defs)" and d: "d = NodeDef node aux defs"
      by (auto simp: res_map_eq_Inr)
    have "unflatten_defs defs (ls @ rest) = Inr (children, rest)"
      using "2.IH" [OF Some fl [symmetric] rec "2.prems"(2)] .
    moreover have "node_unflatten node aux children = x"
    proof -
      from "2.prems"(2) Some
      have "node_unflatten node (snd (node_flatten node x)) (fst (node_flatten node x)) = x"
        by (simp add: pytrees_ok_def)
      with fl show ?thesis by simp
    qed
    ultimately show ?thesis by (simp add: d)
  qed
next
  case (4 n reg c cs)
  from "4.prems"(1) obtain ls1 d1 ls2 ds' where
    c: "tree_flatten n reg c = Inr (ls1, d1)" and cs: "tree_flatten_list n reg cs = Inr (ls2, ds')"
    and ls: "ls = ls1 @ ls2" and ds: "ds = d1 # ds'"
    by (auto simp: res_bind_eq_Inr res_map_eq_Inr)
  have "unflatten_def d1 (ls1 @ ls2 @ rest) = Inr (c, ls2 @ rest)"
    by (rule "4.IH"(1) [OF c "4.prems"(2)])
  moreover have "unflatten_defs ds' (ls2 @ rest) = Inr (cs, rest)"
    by (rule "4.IH"(2) [OF c refl cs "4.prems"(2)])
  ultimately show ?case by (simp add: ls ds)
qed auto

lemma tree_flatten_leaves_unregistered:
  "tree_flatten n reg x = Inr (ls, d) \<Longrightarrow> \<forall>l \<in> set ls. reg (type_of l) = None"
  "tree_flatten_list n reg xs = Inr (ls, ds) \<Longrightarrow> \<forall>l \<in> set ls. reg (type_of l) = None"
  by (induction n reg x and n reg xs arbitrary: ls d and ls ds
      rule: tree_flatten_tree_flatten_list.induct)
     (auto simp: res_bind_eq_Inr res_map_eq_Inr split: option.splits prod.splits)

lemma ad_util_pytrees_apply:
  "ad_util_pytrees T =
     (if T = ZeroT then Some \<lparr>node_flatten = zero_flatten, node_unflatten = zero_unflatten\<rparr>
      else if T = NoneTypeT then Some \<lparr>node_flatten = (\<lambda>_. ([], NoneV)), node_unflatten = (\<lambda>_ _. NoneV)\<rparr>
      else if T = TupleT then Some \<lparr>node_flatten = tuple_flatten, node_unflatten = (\<lambda>_ xs. TupleV xs)\<rparr>
      else None)"
  by (simp add: ad_util_pytrees_def tree_util_init_def register_pytree_node_def)

lemma pytrees_ok_ad_util: "pytrees_ok ad_util_pytrees"
proof -
  have "x = ZeroV" if "type_of x = ZeroT" for x using that by (cases x) simp_all
  moreover have "x = NoneV" if "type_of x = NoneTypeT" for x using that by (cases x) simp_all
  moreover have "\<exists>xs. x = TupleV xs" if "type_of x = TupleT" for x using that by (cases x) simp_all
  ultimately show ?thesis
    by (fastforce simp: pytrees_ok_def ad_util_pytrees_apply zero_flatten_def zero_unflatten_def
        zero_def split: if_splits)
qed

lemma tree_flatten_list_total:
  "\<forall>x \<in> set xs. \<exists>r. tree_flatten n reg x = Inr r \<Longrightarrow> \<exists>r. tree_flatten_list n reg xs = Inr r"
  by (induction xs) (auto simp: res_bind_eq_Inr res_map_eq_Inr)

lemma tree_depth_pos: "0 < tree_depth x"
  by (cases x) simp_all

lemma tree_depth_child: "x \<in> set xs \<Longrightarrow> tree_depth x < tree_depth (TupleV xs)"
  by (simp add: Max_ge_iff less_Suc_eq_le)

text \<open>C5: the symbolic zero flattens to no leaves and to a node whose auxiliary
  datum is \<open>None\<close>; unflattening that node from no leaves, whatever auxiliary
  datum it carries, gives back the shared instance \<open>zero\<close>.\<close>

theorem zero_flatten_roundtrip:
  "tree_flatten (Suc n) ad_util_pytrees zero =
     Inr ([], NodeDef \<lparr>node_flatten = zero_flatten, node_unflatten = zero_unflatten\<rparr> NoneV [])
   \<and> (\<forall>aux. tree_unflatten
          (NodeDef \<lparr>node_flatten = zero_flatten, node_unflatten = zero_unflatten\<rparr> aux []) [] = Inr zero)"
  by (simp add: ad_util_pytrees_apply zero_def zero_flatten_def zero_unflatten_def tree_unflatten_def)

lemma tree_unflatten_flatten_ok:
  assumes "pytrees_ok reg" and "tree_flatten n reg x = Inr (ls, d)"
  shows "tree_unflatten d ls = Inr x"
  using tree_flatten_unflatten(1) [OF assms(2,1), of "[]"] by (simp add: tree_unflatten_def)

text \<open>C6: with \<open>Zero\<close> registered as ad_util registers it, flattening and
  unflattening are inverse on every value flattening accepts, however the
  zero is nested in tuples: the zero occupies its tree position and comes back
  as the shared instance.\<close>

theorem tree_unflatten_flatten:
  assumes "tree_flatten n ad_util_pytrees x = Inr (ls, d)"
  shows "tree_unflatten d ls = Inr x"
  by (rule tree_unflatten_flatten_ok [OF pytrees_ok_ad_util assms])

text \<open>C7: the symbolic zero never appears as a leaf: flattening any value over the
  registry of ad_util gives leaves none of which is \<open>zero\<close>.\<close>

theorem zero_never_leaf:
  assumes "tree_flatten n ad_util_pytrees x = Inr (ls, d)"
  shows "zero \<notin> set ls"
  using tree_flatten_leaves_unregistered(1) [OF assms]
  by (auto simp: ad_util_pytrees_apply zero_def)

text \<open>C8: flattening over the registry of ad_util returns (raises no
  \<open>RecursionError\<close>) whenever its budget is at least the nesting depth of the
  value.\<close>

theorem tree_flatten_enough_fuel:
  assumes "tree_depth x \<le> n"
  shows "\<exists>ls d. tree_flatten n ad_util_pytrees x = Inr (ls, d)"
proof -
  have "\<forall>x. tree_depth x \<le> n \<longrightarrow> (\<exists>r. tree_flatten n ad_util_pytrees x = Inr r)"
  proof (induction n)
    case 0
    then show ?case using tree_depth_pos by (simp add: not_le)
  next
    case (Suc m)
    show ?case
    proof (intro allI impI)
      fix x
      assume dx: "tree_depth x \<le> Suc m"
      have children: "\<exists>r. tree_flatten_list m ad_util_pytrees (fst (node_flatten node x)) = Inr r"
        if "ad_util_pytrees (type_of x) = Some node" for node
      proof (cases x)
        case (TupleV xs)
        with that have "fst (node_flatten node x) = xs"
          by (auto simp: ad_util_pytrees_apply)
        moreover have "\<forall>c \<in> set xs. \<exists>r. tree_flatten m ad_util_pytrees c = Inr r"
          using Suc.IH dx tree_depth_child TupleV by fastforce
        ultimately show ?thesis using tree_flatten_list_total by metis
      qed (use that in \<open>auto simp: ad_util_pytrees_apply zero_flatten_def split: if_splits\<close>)
      show "\<exists>r. tree_flatten (Suc m) ad_util_pytrees x = Inr r"
        using children by (auto simp: res_map_eq_Inr split: option.split prod.split)
    qed
  qed
  with assms show ?thesis by auto
qed


lemma tree_flatten_leaf:
  "reg (type_of v) = None \<Longrightarrow> tree_depth v \<le> n \<Longrightarrow> tree_flatten n reg v = Inr ([v], LeafDef)"
  using tree_depth_pos [of v] by (cases n) simp_all

lemma tree_flatten_list_leaves:
  "(\<And>x. x \<in> set xs \<Longrightarrow> res_map fst (tree_flatten m reg x) = Inr (f x)) \<Longrightarrow>
     res_map fst (tree_flatten_list m reg xs) = Inr (concat (map f xs))"
proof (induction xs)
  case (Cons x xs)
  from Cons.prems [of x] obtain d where "tree_flatten m reg x = Inr (f x, d)"
    by (auto simp: res_map_eq_Inr)
  moreover from Cons obtain ds where "tree_flatten_list m reg xs = Inr (concat (map f xs), ds)"
    by (auto simp: res_map_eq_Inr)
  ultimately show ?case by simp
qed simp

text \<open>C29: with a budget of the value's nesting depth, the leaves that the
  registry-driven \<open>tree_flatten\<close> returns over ad_util's registry are those of
  the structural reference \<open>leaves_ref\<close>: the registered handlers of tuples,
  \<open>None\<close> and \<open>Zero\<close> flatten exactly as the reference says.\<close>

theorem tree_flatten_leaves_ref:
  assumes "tree_depth x \<le> n"
  shows "res_map fst (tree_flatten n ad_util_pytrees x) = Inr (leaves_ref x)"
  using assms
proof (induction x arbitrary: n rule: leaves_ref.induct)
  case (1 xs)
  then obtain m where n: "n = Suc m" by (cases n) auto
  have "res_map fst (tree_flatten_list m ad_util_pytrees xs) = Inr (concat (map leaves_ref xs))"
  proof (rule tree_flatten_list_leaves)
    fix x assume x: "x \<in> set xs"
    with "1.prems" n have "tree_depth x \<le> m" using tree_depth_child [OF x] by simp
    with x show "res_map fst (tree_flatten m ad_util_pytrees x) = Inr (leaves_ref x)" by (rule "1.IH")
  qed
  moreover have "ad_util_pytrees (type_of (TupleV xs)) =
      Some \<lparr>node_flatten = tuple_flatten, node_unflatten = (\<lambda>_ xs. TupleV xs)\<rparr>"
    by (simp add: ad_util_pytrees_apply)
  ultimately show ?case
    by (auto simp: n res_map_eq_Inr split_def)
next
  case 2
  then show ?case by (cases n) (simp_all add: ad_util_pytrees_apply)
next
  case 3
  then show ?case by (cases n) (simp_all add: ad_util_pytrees_apply zero_flatten_def)
qed (simp_all add: tree_flatten_leaf ad_util_pytrees_apply)

end
