(* ===== verification/StopGradient.thy ===== *)
theory StopGradient
  imports Primitive SymbolicZero
begin

text \<open>
  The stop-gradient operation of \<^verbatim>\<open>jax/ad_util.py\<close>: the evaluation rule
  \<open>stop_gradient_impl\<close> (\<^verbatim>\<open>_stop_gradient_impl\<close>), identity on valid JAX values and
  \<open>TypeError\<close> on anything else; the abstract rule, identity on descriptors; and
  the custom binding rule \<open>stop_gradient_bind\<close>, which returns its argument at
  once when no trace is tracking it and otherwise hands it to the top trace's
  \<open>process_primitive\<close> and fully lowers the tracer it gets back.  The binding
  rule is stated over the \<open>process\<close> hook of theory \<open>Primitive\<close>, so its lemmas
  hold for every interpreter.

  The error message embeds \<open>str(x)\<close>; \<open>py_str\<close> models the builtin for the values
  of the model (the class \<open>Zero\<close> answers with its \<open>__repr__\<close>, \<open>Unit\<close> with
  \<open>'*'\<close>).
\<close>

subsection \<open>Printing values\<close>

fun py_str :: "pyval \<Rightarrow> string" where
  "py_str UnitV = ''*''"
| "py_str ZeroV = Zero_repr ZeroV"
| "py_str (NdarrayV sh d) = ''['' @ join_str (map int_str d) @ '']''"
| "py_str (ObjV c fs) = c @ ''('' @ join_str (map int_str fs) @ '')''"
| "py_str (StrV s) = s"
| "py_str NoneV = ''None''"
| "py_str (TupleV xs) = ''('' @ join_str (map py_str xs) @ '')''"
| "py_str (JVPTracerV l p t) = ''Traced<JVP:'' @ nat_str l @ ''>''"
| "py_str (JaxprTracerV l a v) = ''Traced<Jaxpr:'' @ nat_str l @ ''>''"

subsection \<open>The operation\<close>

definition stop_gradient_impl :: "pyval \<Rightarrow> error + pyval" where
  "stop_gradient_impl x =
     (if \<not> valid_jaxtype x
      then Inl (TypeError (''stop_gradient only works on valid JAX arrays, but input argument is: ''
                           @ py_str x))
      else Inr x)"

definition stop_gradient_abstract :: "aval \<Rightarrow> error + aval" where
  "stop_gradient_abstract x = Inr x"

definition stop_gradient_bind :: "'s process_fn \<Rightarrow> pyval \<Rightarrow> 's \<Rightarrow> error + (pyval \<times> 's)" where
  "stop_gradient_bind process x s =
     (case find_top_trace [x] of
        None \<Rightarrow> Inr (x, s)
      | Some top_trace \<Rightarrow>
          res_map (\<lambda>(out_tracer, s'). (full_lower out_tracer, s')) (process top_trace [x] s))"

text \<open>The custom rule is a Python function of one parameter, called with \<open>*args\<close>.\<close>

definition stop_gradient_custom :: "'s process_fn \<Rightarrow> pyval list \<Rightarrow> 's \<Rightarrow> error + (pyval \<times> 's)" where
  "stop_gradient_custom process args s =
     (case args of [x] \<Rightarrow> stop_gradient_bind process x s
      | _ \<Rightarrow> Inl (TypeError ''stop_gradient_bind() takes 1 positional argument''))"

definition stop_gradient_p :: "'s primitive" where
  "stop_gradient_p =
     def_custom_bind
       (def_abstract_eval (def_impl (new_primitive ''stop_gradient'') (call1 stop_gradient_impl))
          (call1 stop_gradient_abstract))
       stop_gradient_custom"

lemma stop_gradient_p_hooks [simp]:
  "prim_name stop_gradient_p = ''stop_gradient''"
  "impl stop_gradient_p = call1 stop_gradient_impl"
  "abstract_eval stop_gradient_p = call1 stop_gradient_abstract"
  "custom_bind stop_gradient_p = Some stop_gradient_custom"
  by (simp_all add: stop_gradient_p_def)

subsection \<open>Behaviour\<close>

text \<open>C9: the evaluation rule is the identity on valid JAX values and raises
  \<open>TypeError\<close> on every other value, with a message that ends with the
  offending value's printed form.\<close>

theorem stop_gradient_impl_behaviour:
  "(valid_jaxtype x \<longrightarrow> stop_gradient_impl x = Inr x) \<and>
   (\<not> valid_jaxtype x \<longrightarrow>
      (\<exists>msg. stop_gradient_impl x = Inl (TypeError msg) \<and> (\<exists>pre. msg = pre @ py_str x)))"
  by (simp add: stop_gradient_impl_def)

text \<open>C10: with no trace tracking its argument, the binding rule returns the
  argument itself and leaves the interpreter state as it was, for every
  \<open>process\<close> hook: no trace is asked to process anything.\<close>

theorem stop_gradient_bind_no_trace:
  assumes "find_top_trace [x] = None"
  shows "stop_gradient_bind process x s = Inr (x, s)"
  using assms by (simp add: stop_gradient_bind_def)

lemma stop_gradient_bind_top_trace:
  "find_top_trace [x] = Some t \<Longrightarrow>
     stop_gradient_bind process x s = res_map (\<lambda>(out, s'). (full_lower out, s')) (process t [x] s)"
  by (simp add: stop_gradient_bind_def)

lemma stop_gradient_custom_single [simp]:
  "stop_gradient_custom process [x] s = stop_gradient_bind process x s"
  by (simp add: stop_gradient_custom_def)

end
