(* ===== verification/Interp.thy ===== *)
theory Interp
  imports AddJaxvals ZerosLike StopGradient
begin

text \<open>
  The interpreter that binds primitives, a collaborator of ad_util modelled
  from the specification's interface: the default \<open>Primitive.bind\<close> of
  \<^verbatim>\<open>jax/core.py\<close> (evaluate eagerly when no trace is active; otherwise raise
  the arguments to the top trace, let it process the primitive and fully lower
  the result), a custom binding rule taking its place where one is
  registered, and two kinds of trace: the differentiation trace of
  \<^verbatim>\<open>jax/interpreters/ad.py\<close> and the staging trace of
  \<^verbatim>\<open>jax/interpreters/partial_eval.py\<close>.

  The state \<open>interp\<close> records what traces do: every call of
  \<open>process_primitive\<close> in order (\<open>processed\<close>), the equations a staging trace
  has recorded (\<open>staged_eqns\<close>: primitive name, input variables, output variable), the
  constants lifted into a staging trace (\<open>lifted_consts\<close>) and the next fresh variable.

  The differentiation trace looks up the primitive's rule in
  \<open>primitive_jvps\<close> (raising \<open>NotImplementedError\<close> when there is none) and
  applies it to the primals and tangents of its tracers: \<open>linear_jvp\<close> for
  \<open>add_any\<close> and \<open>zeros_like\<close> (\<open>ad.deflinear\<close>), which binds the primitive on
  the primals and, unless every tangent is the symbolic zero, instantiates the
  zero tangents with \<open>zeros_like_jaxval\<close> of their primals and binds the
  primitive again on the tangents; the zero rule for \<open>stop_gradient\<close>.  A staging
  trace applies the abstract rule and records an equation (every staged
  input is unknown, as under \<open>jit\<close>).  Binding and processing call each
  other; the recursion runs on a budget (\<open>fuel\<close>, the interpreter's recursion
  limit) and raises \<open>RecursionError\<close> when it is spent.

  The lemmas show the behaviour of the three primitives under each trace:
  stop-gradient cuts the derivative but is staged; the tangent of a sum is
  the sum of the tangents, a zero tangent is instantiated by the registered
  identity constructor before the sum (so a constant whose class has none
  makes the sum raise \<open>KeyError\<close>); \<open>zeros_like\<close> is applied to the tangent as
  to the primal; staging types the combination by the join.
\<close>

record interp =
  processed :: "(trace \<times> string \<times> pyval list) list"
  staged_eqns :: "(string \<times> nat list \<times> nat) list"
  lifted_consts :: "(nat \<times> pyval) list"
  fresh :: nat

definition interp_init :: interp where
  "interp_init = \<lparr>processed = [], staged_eqns = [], lifted_consts = [], fresh = 0\<rparr>"

subsection \<open>Raising values into a trace\<close>

fun pure :: "trace \<Rightarrow> pyval \<Rightarrow> interp \<Rightarrow> error + (pyval \<times> interp)" where
  "pure (Trace JVPTrace l) v s = Inr (JVPTracerV l v ZeroV, s)"
| "pure (Trace JaxprTrace l) v s =
     res_map (\<lambda>a. (JaxprTracerV l a (fresh s),
                   s\<lparr>lifted_consts := lifted_consts s @ [(fresh s, v)], fresh := Suc (fresh s)\<rparr>))
       (get_aval v)"

definition full_raise :: "trace \<Rightarrow> pyval \<Rightarrow> interp \<Rightarrow> error + (pyval \<times> interp)" where
  "full_raise t v s =
     (case tracer_trace v of
        None \<Rightarrow> pure t v s
      | Some t' \<Rightarrow>
          if t' = t then Inr (v, s)
          else if trace_level t' < trace_level t then pure t v s
          else Inl (ValueError ''Can't lift a tracer to a lower level''))"

fun jvp_unpack :: "pyval \<Rightarrow> error + (pyval \<times> pyval)" where
  "jvp_unpack (JVPTracerV _ p t) = Inr (p, t)"
| "jvp_unpack _ = Inl (AttributeError ''object has no attribute primal'')"

fun staged_unpack :: "pyval \<Rightarrow> error + (aval \<times> nat)" where
  "staged_unpack (JaxprTracerV _ a v) = Inr (a, v)"
| "staged_unpack _ = Inl (AttributeError ''object has no attribute recipe'')"

text \<open>
  The differentiation rules of \<^verbatim>\<open>jax/interpreters/ad.py\<close> for ad_util's three
  primitives, each called with the primals and the tangents of the inputs and
  returning the output primal and tangent.  \<open>ad.deflinear\<close> gives \<open>add_any\<close> and
  \<open>zeros_like\<close> the rule \<open>linear_jvp\<close>: bind the primitive on the primals; if
  every tangent is the symbolic zero the output tangent is zero, otherwise
  \<open>instantiate_zeros\<close> replaces each zero tangent by \<open>zeros_like_jaxval\<close> of its
  primal and the primitive is bound again on the tangents.  The rule of
  \<open>stop_gradient\<close> (\<open>lax._stop_gradient_jvp_rule\<close>, as \<open>ad.defjvp_zero\<close>) binds
  the primitive on the primal and returns the zero tangent.  The table
  \<open>primitive_jvps\<close> is keyed by the primitive's name (the three names are
  distinct) and holds the kind of rule.
\<close>

datatype jvp_kind = LinearJVP | ZeroJVP

definition primitive_jvps :: "string \<rightharpoonup> jvp_kind" where
  "primitive_jvps = [''add_any'' \<mapsto> LinearJVP, ''zeros_like'' \<mapsto> LinearJVP, ''stop_gradient'' \<mapsto> ZeroJVP]"

definition instantiate_zeros :: "'s bind_fn \<Rightarrow> ad_state \<Rightarrow> pyval \<Rightarrow> pyval \<Rightarrow> 's \<Rightarrow> error + (pyval \<times> 's)" where
  "instantiate_zeros bind st example tangent s =
     (if tangent = ZeroV then zeros_like_jaxval bind st example s else Inr (tangent, s))"

definition linear_jvp ::
  "'s bind_fn \<Rightarrow> ad_state \<Rightarrow> 's primitive \<Rightarrow> pyval list \<Rightarrow> pyval list \<Rightarrow> 's \<Rightarrow> error + ((pyval \<times> pyval) \<times> 's)" where
  "linear_jvp bind st p primals tangents s =
     res_bind (bind p primals s) (\<lambda>(val_out, s1).
       if list_all (\<lambda>t. t = ZeroV) tangents then Inr ((val_out, ZeroV), s1)
       else res_bind (res_mapM (\<lambda>(x, t). instantiate_zeros bind st x t) (zip primals tangents) s1)
              (\<lambda>(ts, s2). res_map (\<lambda>(t_out, s3). ((val_out, t_out), s3)) (bind p ts s2)))"

fun jvp_rule ::
  "jvp_kind \<Rightarrow> 's bind_fn \<Rightarrow> ad_state \<Rightarrow> 's primitive \<Rightarrow> pyval list \<Rightarrow> pyval list \<Rightarrow> 's
     \<Rightarrow> error + ((pyval \<times> pyval) \<times> 's)" where
  "jvp_rule LinearJVP bind st p primals tangents s = linear_jvp bind st p primals tangents s"
| "jvp_rule ZeroJVP bind st p primals tangents s =
     res_map (\<lambda>(v, s1). ((v, ZeroV), s1)) (bind p primals s)"

subsection \<open>Binding and processing\<close>

fun prim_bind :: "nat \<Rightarrow> ad_state \<Rightarrow> interp bind_fn"
and process_primitive :: "nat \<Rightarrow> ad_state \<Rightarrow> interp primitive \<Rightarrow> interp process_fn"
where
  "prim_bind 0 st p args s = Inl RecursionError"
| "prim_bind (Suc n) st p args s =
     (case custom_bind p of
        Some rule \<Rightarrow> rule (\<lambda>t xs s'. process_primitive n st p t xs s') args s
      | None \<Rightarrow>
          (case find_top_trace args of
             None \<Rightarrow> res_map (\<lambda>v. (v, s)) (impl p args)
           | Some t \<Rightarrow>
               res_bind (res_mapM (full_raise t) args s) (\<lambda>(tracers, s1).
                 res_map (\<lambda>(out, s2). (full_lower out, s2))
                   (process_primitive n st p t tracers s1))))"
| "process_primitive 0 st p t tracers s = Inl RecursionError"
| "process_primitive (Suc n) st p (Trace JVPTrace l) tracers s =
     res_bind (res_list jvp_unpack tracers) (\<lambda>pts.
       case primitive_jvps (prim_name p) of
         None \<Rightarrow> Inl (NotImplementedError (''Differentiation rule for '' @ prim_name p @ '' not implemented''))
       | Some rule \<Rightarrow>
           res_map (\<lambda>((primal_out, tangent_out), s2). (JVPTracerV l primal_out tangent_out, s2))
             (jvp_rule rule (prim_bind n st) st p (map fst pts) (map snd pts)
                (s\<lparr>processed := processed s @ [(Trace JVPTrace l, prim_name p, tracers)]\<rparr>)))"
| "process_primitive (Suc n) st p (Trace JaxprTrace l) tracers s =
     res_bind (res_list staged_unpack tracers) (\<lambda>avs.
       res_map (\<lambda>out_aval.
                  (JaxprTracerV l out_aval (fresh s),
                   s\<lparr>processed := processed s @ [(Trace JaxprTrace l, prim_name p, tracers)],
                     staged_eqns := staged_eqns s @ [(prim_name p, map snd avs, fresh s)],
                     fresh := Suc (fresh s)\<rparr>))
         (abstract_eval p (map fst avs)))"

text \<open>The three primitives ad_util defines, in the module state \<open>st\<close>.\<close>

definition ad_prim :: "ad_state \<Rightarrow> interp primitive \<Rightarrow> bool" where
  "ad_prim st p = (p = add_jaxvals_p st \<or> p = zeros_like_p st \<or> p = stop_gradient_p)"

subsection \<open>Binding\<close>

lemma prim_bind_eager:
  assumes "custom_bind p = None" and "find_top_trace args = None"
  shows "prim_bind (Suc n) st p args s = res_map (\<lambda>v. (v, s)) (impl p args)"
  using assms by simp

lemma prim_bind_custom:
  "custom_bind p = Some rule \<Longrightarrow>
     prim_bind (Suc n) st p args s = rule (\<lambda>t xs s'. process_primitive n st p t xs s') args s"
  by simp

lemma full_raise_own_trace: "tracer_trace x = Some t \<Longrightarrow> full_raise t x s = Inr (x, s)"
  by (simp add: full_raise_def)

text \<open>C11: under a differentiation trace, binding \<open>stop_gradient\<close> hands the tracer
  to that trace exactly once, evaluates the primal, gives the output the
  symbolic zero as its tangent, and so lowers it to the bare primal: the
  derivative is cut off.\<close>

theorem stop_gradient_under_jvp:
  assumes "\<not> is_tracer p"
  shows "prim_bind (Suc (Suc (Suc n))) st stop_gradient_p [JVPTracerV l p t] s =
           Inr (p, s\<lparr>processed := processed s @ [(Trace JVPTrace l, ''stop_gradient'', [JVPTracerV l p t])]\<rparr>)"
  using assms by (simp add: stop_gradient_bind_def primitive_jvps_def)

text \<open>C12: under a staging trace, binding \<open>stop_gradient\<close> is not transparent: the
  trace records a \<open>stop_gradient\<close> equation from the input variable to a fresh
  output variable and the result is the tracer of that variable.\<close>

theorem stop_gradient_under_staging:
  "prim_bind (Suc (Suc n)) st stop_gradient_p [JaxprTracerV l a v] s =
     Inr (JaxprTracerV l a (fresh s),
          s\<lparr>processed := processed s @ [(Trace JaxprTrace l, ''stop_gradient'', [JaxprTracerV l a v])],
            staged_eqns := staged_eqns s @ [(''stop_gradient'', [v], fresh s)],
            fresh := Suc (fresh s)\<rparr>)"
  by (simp add: stop_gradient_bind_def stop_gradient_abstract_def)

text \<open>C13: with no trace active, binding \<open>stop_gradient\<close> returns its argument
  unchanged and leaves the interpreter state as it was, for every value,
  including values the evaluation rule rejects (a string, the symbolic zero):
  the validity check of \<open>stop_gradient_impl\<close> is never reached.\<close>

theorem stop_gradient_bind_skips_check:
  assumes "\<not> is_tracer x"
  shows "prim_bind (Suc n) st stop_gradient_p [x] s = Inr (x, s)"
  using assms by (simp add: stop_gradient_bind_def)

subsection \<open>Differentiation rules\<close>

lemma jvp_unpack_tracers [simp]:
  "res_list jvp_unpack (map (\<lambda>(x, t). JVPTracerV l x t) pts) = Inr pts"
  by (induction pts) auto

lemma instantiate_zeros_nonzero [simp]: "t \<noteq> ZeroV \<Longrightarrow> instantiate_zeros bind st x t s = Inr (t, s)"
  by (simp add: instantiate_zeros_def)

lemma instantiate_zeros_zero [simp]:
  "instantiate_zeros bind st x ZeroV s = zeros_like_jaxval bind st x s"
  by (simp add: instantiate_zeros_def)

text \<open>
  Binding a primitive whose arguments are already tracers of the top
  differentiation trace: the trace is entered once (one log entry), the
  primitive's rule computes the output primal and tangent, and the output is
  fully lowered.
\<close>

lemma prim_bind_jvp:
  assumes "custom_bind p = None" and "find_top_trace args = Some (Trace JVPTrace l)"
    and "res_mapM (full_raise (Trace JVPTrace l)) args s = Inr (map (\<lambda>(x, t). JVPTracerV l x t) pts, s1)"
    and "primitive_jvps (prim_name p) = Some rule"
  shows "prim_bind (Suc (Suc n)) st p args s =
    res_map (\<lambda>((po, t), s2). (full_lower (JVPTracerV l po t), s2))
      (jvp_rule rule (prim_bind n st) st p (map fst pts) (map snd pts)
        (s1\<lparr>processed := processed s1 @ [(Trace JVPTrace l, prim_name p, map (\<lambda>(x, t). JVPTracerV l x t) pts)]\<rparr>))"
proof -
  have "res_list jvp_unpack (map (\<lambda>(x, t). JVPTracerV l x t) pts) = Inr pts" by simp
  with assms show ?thesis by (simp add: split_def)
qed


text \<open>C20: under a differentiation trace, combining two tracers with untraced
  primals and non-zero untraced tangents records one \<open>add_any\<close> step on that
  trace, combines the primals with the adder registered for the first primal's
  class and the tangents with the adder registered for the first tangent's
  class: the tangent of a sum is the sum of the tangents.\<close>

theorem add_jaxvals_jvp_tangent_sum:
  assumes "\<not> is_tracer a" "\<not> is_tracer b" "\<not> is_tracer ta" "\<not> is_tracer tb"
    and "get_aval a = Inr A" "get_aval b = Inr B" "A \<noteq> AbstractUnit"
    and "get_aval ta = Inr TA" "get_aval tb = Inr TB" "TA \<noteq> AbstractUnit"
    and "jaxval_adders st (type_of a) = Some f" "jaxval_adders st (type_of ta) = Some g"
    and "g ta tb \<noteq> ZeroV"
  shows "add_jaxvals (prim_bind (Suc (Suc (Suc n))) st) st (JVPTracerV l a ta) (JVPTracerV l b tb) s =
           Inr (JVPTracerV l (f a b) (g ta tb),
                s\<lparr>processed := processed s @ [(Trace JVPTrace l, ''add_any'', [JVPTracerV l a ta, JVPTracerV l b tb])]\<rparr>)"
proof -
  have "ta \<noteq> ZeroV" "tb \<noteq> ZeroV" using assms(8,9) by auto
  moreover have "find_top_trace [a, b] = None" "find_top_trace [ta, tb] = None"
    using assms(1-4) by (simp_all add: find_top_trace_None_iff)
  moreover have "find_top_trace [JVPTracerV l a ta, JVPTracerV l b tb] = Some (Trace JVPTrace l)"
    by (simp add: find_top_trace_def map_filter_simps)
  ultimately show ?thesis
    using assms(5-7,11-13)
    by (simp add: add_jaxvals_binds prim_bind_jvp [where pts = "[(a, ta), (b, tb)]"] full_raise_def
        primitive_jvps_def linear_jvp_def add_impl_registered prim_bind_eager del: prim_bind.simps(2))
qed

text \<open>C21: a symbolic-zero tangent is instantiated before tangents are
  combined: when a primal's tangent is the symbolic zero and the other
  tangent is not, the zero is replaced by the identity that the constructor
  registered for that primal's class builds from it, and the output tangent
  is that identity combined with the other tangent by the adder registered
  for the identity's class; one \<open>add_any\<close> step is recorded on the trace.\<close>

theorem add_jaxvals_jvp_zero_tangent:
  assumes "\<not> is_tracer a" "\<not> is_tracer b" "\<not> is_tracer tb" "tb \<noteq> ZeroV"
    and "get_aval a = Inr A" "get_aval b = Inr B" "A \<noteq> AbstractUnit"
    and "jaxval_adders st (type_of a) = Some f"
    and "jaxval_zeros_likers st (type_of a) = Some h" "\<not> is_tracer (h a)"
    and "jaxval_adders st (type_of (h a)) = Some g"
  shows "add_jaxvals (prim_bind (Suc (Suc (Suc n))) st) st (JVPTracerV l a ZeroV) (JVPTracerV l b tb) s =
           Inr (full_lower (JVPTracerV l (f a b) (g (h a) tb)),
                s\<lparr>processed := processed s @ [(Trace JVPTrace l, ''add_any'', [JVPTracerV l a ZeroV, JVPTracerV l b tb])]\<rparr>)"
proof -
  have "find_top_trace [a, b] = None" "find_top_trace [h a, tb] = None"
    using assms(1-3,10) by (simp_all add: find_top_trace_None_iff)
  moreover have "find_top_trace [JVPTracerV l a ZeroV, JVPTracerV l b tb] = Some (Trace JVPTrace l)"
    by (simp add: find_top_trace_def map_filter_simps)
  ultimately show ?thesis
    using assms
    by (simp add: add_jaxvals_binds prim_bind_jvp [where pts = "[(a, ZeroV), (b, tb)]"] full_raise_def
        primitive_jvps_def linear_jvp_def add_impl_registered zeros_like_jaxval_def
        zeros_like_impl_registered prim_bind_eager del: prim_bind.simps(2))
qed

text \<open>C22: when every tangent is the symbolic zero the differentiation rule of
  the combination does no tangent work: combining two tracers with untraced
  primals and zero tangents records one \<open>add_any\<close> step, binds the primitive
  on the primals only, consults no identity constructor (none need be
  registered) and lowers the output to the combined primals.\<close>

theorem add_jaxvals_jvp_zero_tangents:
  assumes "\<not> is_tracer a" "\<not> is_tracer b"
    and "get_aval a = Inr A" "get_aval b = Inr B" "A \<noteq> AbstractUnit"
    and "jaxval_adders st (type_of a) = Some f"
  shows "add_jaxvals (prim_bind (Suc (Suc (Suc n))) st) st (JVPTracerV l a ZeroV) (JVPTracerV l b ZeroV) s =
           Inr (full_lower (f a b),
                s\<lparr>processed := processed s @ [(Trace JVPTrace l, ''add_any'', [JVPTracerV l a ZeroV, JVPTracerV l b ZeroV])]\<rparr>)"
proof -
  have "find_top_trace [a, b] = None"
    using assms(1,2) by (simp add: find_top_trace_None_iff)
  moreover have "find_top_trace [JVPTracerV l a ZeroV, JVPTracerV l b ZeroV] = Some (Trace JVPTrace l)"
    by (simp add: find_top_trace_def map_filter_simps)
  ultimately show ?thesis
    using assms
    by (simp add: add_jaxvals_binds prim_bind_jvp [where pts = "[(a, ZeroV), (b, ZeroV)]"] full_raise_def
        primitive_jvps_def linear_jvp_def add_impl_registered prim_bind_eager del: prim_bind.simps(2))
qed

text \<open>C24: \<open>zeros_like\<close> is linear, not constant, under differentiation: on a
  tracer with an untraced primal and a non-zero untraced tangent,
  \<open>zeros_like_jaxval\<close> records one \<open>zeros_like\<close> step and returns the tracer
  whose primal is the identity the registered constructor builds for the
  primal and whose tangent is the identity built for the tangent.\<close>

theorem zeros_like_under_jvp:
  assumes "\<not> is_tracer p" "\<not> is_tracer t" "t \<noteq> ZeroV"
    and "jaxval_zeros_likers st (type_of p) = Some g" and "jaxval_zeros_likers st (type_of t) = Some g'"
  shows "zeros_like_jaxval (prim_bind (Suc (Suc (Suc n))) st) st (JVPTracerV l p t) s =
           Inr (full_lower (JVPTracerV l (g p) (g' t)),
                s\<lparr>processed := processed s @ [(Trace JVPTrace l, ''zeros_like'', [JVPTracerV l p t])]\<rparr>)"
  using assms
  by (simp add: zeros_like_jaxval_def prim_bind_jvp [where pts = "[(p, t)]"] full_raise_def
      primitive_jvps_def linear_jvp_def zeros_like_impl_registered prim_bind_eager find_top_trace_None_iff del: prim_bind.simps(2))

text \<open>C25: under a staging trace, combining two tracers of that trace either
  takes the no-data short cut, or records an \<open>add_any\<close> equation from the two
  input variables to a fresh variable whose descriptor is the join of the
  inputs' descriptors; when the descriptors do not join, the \<open>TypeError\<close> of
  the join propagates and nothing is recorded.\<close>

theorem add_jaxvals_under_staging:
  "add_jaxvals (prim_bind (Suc (Suc n)) st) st (JaxprTracerV l a v) (JaxprTracerV l b w) s =
     (if a = b \<and> b = AbstractUnit then Inr (UnitV, s)
      else res_map (\<lambda>j. (JaxprTracerV l j (fresh s),
                           s\<lparr>processed := processed s @ [(Trace JaxprTrace l, ''add_any'',
                                                          [JaxprTracerV l a v, JaxprTracerV l b w])],
                             staged_eqns := staged_eqns s @ [(''add_any'', [v, w], fresh s)],
                             fresh := Suc (fresh s)\<rparr>))
             (lattice_join a b))"
proof -
  have "find_top_trace [JaxprTracerV l a v, JaxprTracerV l b w] = Some (Trace JaxprTrace l)"
    by (simp add: find_top_trace_def map_filter_simps)
  then show ?thesis
    by (cases "lattice_join a b") (simp_all add: add_jaxvals_def full_raise_def add_abstract_def)
qed

text \<open>C26: combining a differentiation tracer with an untraced constant raises
  the constant into the trace with the symbolic zero as its tangent, and the
  differentiation rule instantiates that zero with the identity constructor
  registered for the constant's class: when the tracer's tangent is not zero
  and no constructor is registered for that class, the combination raises
  \<open>KeyError\<close> naming the class, although an adder for the primals exists.\<close>

theorem add_jaxvals_jvp_constant:
  assumes "\<not> is_tracer p" and "\<not> is_tracer c" and "t \<noteq> ZeroV"
    and "get_aval p = Inr A" and "get_aval c = Inr B" and "A \<noteq> AbstractUnit"
    and "jaxval_adders st (type_of p) = Some f" and "jaxval_zeros_likers st (type_of c) = None"
  shows "add_jaxvals (prim_bind (Suc (Suc (Suc n))) st) st (JVPTracerV l p t) c s = Inl (KeyError (type_of c))"
proof -
  have top: "find_top_trace [JVPTracerV l p t, c] = Some (Trace JVPTrace l)"
    using assms(2) by (cases c) (simp_all add: find_top_trace_def map_filter_simps)
  have raise: "res_mapM (full_raise (Trace JVPTrace l)) [JVPTracerV l p t, c] s =
      Inr (map (\<lambda>(x, t). JVPTracerV l x t) [(p, t), (c, ZeroV)], s)"
    using assms(2) by (simp add: full_raise_def)
  have "find_top_trace [p, c] = None"
    using assms(1,2) by (simp add: find_top_trace_None_iff)
  with prim_bind_jvp [OF _ top raise, where rule = LinearJVP and n = "Suc n" and st = st and p = "add_jaxvals_p st"] assms(1-8)
  show ?thesis
    by (simp add: add_jaxvals_binds primitive_jvps_def linear_jvp_def add_impl_registered
        prim_bind_eager zeros_like_jaxval_def zeros_like_impl_unregistered del: prim_bind.simps(2))
qed

text \<open>C31: stop-gradient composes across nested differentiation: on a tracer of
  a differentiation trace whose primal is itself a tracer of the trace one
  level below, binding \<open>stop_gradient\<close> is processed first by the outer trace
  and then by the inner one, in that order, and returns the innermost
  primal: both derivatives are cut.\<close>

theorem stop_gradient_nested_jvp:
  assumes "\<not> is_tracer p"
  shows "prim_bind (Suc (Suc (Suc (Suc (Suc n))))) st stop_gradient_p [JVPTracerV (Suc l) (JVPTracerV l p t) t'] s =
           Inr (p, s\<lparr>processed := processed s @
                  [(Trace JVPTrace (Suc l), ''stop_gradient'', [JVPTracerV (Suc l) (JVPTracerV l p t) t']),
                   (Trace JVPTrace l, ''stop_gradient'', [JVPTracerV l p t])]\<rparr>)"
  using assms by (simp add: stop_gradient_bind_def primitive_jvps_def)

text \<open>C32: under a staging trace, \<open>zeros_like_jaxval\<close> is staged like any
  primitive: the trace records a \<open>zeros_like\<close> equation from the input
  variable to a fresh variable, and the identity abstract rule gives the
  output the input's descriptor.\<close>

theorem zeros_like_under_staging:
  "zeros_like_jaxval (prim_bind (Suc (Suc n)) st) st (JaxprTracerV l a v) s =
     Inr (JaxprTracerV l a (fresh s),
          s\<lparr>processed := processed s @ [(Trace JaxprTrace l, ''zeros_like'', [JaxprTracerV l a v])],
            staged_eqns := staged_eqns s @ [(''zeros_like'', [v], fresh s)],
            fresh := Suc (fresh s)\<rparr>)"
  by (simp add: zeros_like_jaxval_def full_raise_def zeros_like_abstract_def)

end
