(* ===== verification/Lifecycle.thy ===== *)
theory Lifecycle
  imports AddJaxvals ZerosLike
begin

text \<open>
  The lifecycle of the module state of \<^verbatim>\<open>jax/ad_util.py\<close>: the registries are
  populated when the module is imported (lines 27--28 and 51--52) and later
  grow by registrations, one event per \<open>registry[T] = f\<close> statement, of the
  module itself or of the modules that define extension types.  The events
  are the \<open>registration\<close>s of theory \<open>Registry\<close>; \<open>ad_step ok\<close> is the step
  relation of a registration that satisfies \<open>ok\<close>, and \<open>ad_reachable ok\<close> the
  states reachable from the module's initial state by such steps.

  The lemmas show that the entries the module registers itself keep a key in
  every reachable state, and that the registry contracts hold in every state
  reached by registrations that keep them.
\<close>

inductive ad_step :: "(registration \<Rightarrow> bool) \<Rightarrow> ad_state \<Rightarrow> ad_state \<Rightarrow> bool" for ok where
  register: "ok r \<Longrightarrow> ad_step ok st (register st r)"

inductive ad_reachable :: "(registration \<Rightarrow> bool) \<Rightarrow> ad_state \<Rightarrow> bool" for ok where
  init: "ad_reachable ok ad_util_init"
| step: "ad_reachable ok st \<Longrightarrow> ad_step ok st st' \<Longrightarrow> ad_reachable ok st'"

inductive_cases ad_stepE: "ad_step ok st st'"

text \<open>The registration contracts of the three registries, per entry and per state.\<close>

definition reg_sound :: "registration \<Rightarrow> bool" where
  "reg_sound r =
     (case r of
        AdderReg T f \<Rightarrow> adder_sound T f
      | JaxvalZerosReg T g \<Rightarrow> zeros_liker_sound T g
      | AvalZerosReg T h \<Rightarrow> aval_zeros_liker_sound T h)"

definition registries_sound :: "ad_state \<Rightarrow> bool" where
  "registries_sound st =
     (adders_sound st \<and>
      (\<forall>T g. jaxval_zeros_likers st T = Some g \<longrightarrow> zeros_liker_sound T g) \<and>
      (\<forall>T h. aval_zeros_likers st T = Some h \<longrightarrow> aval_zeros_liker_sound T h))"

subsection \<open>Reachable states and the functional model\<close>

lemma ad_reachable_register_all:
  "list_all ok regs \<Longrightarrow> ad_reachable ok (register_all ad_util_init regs)"
proof (induction regs rule: rev_induct)
  case Nil
  then show ?case by (simp add: ad_reachable.init)
next
  case (snoc r regs)
  then show ?case
    by (simp only: register_all_snoc list_all_append)
       (auto intro: ad_reachable.step ad_step.register)
qed

lemma ad_step_keys:
  "ad_step ok st st' \<Longrightarrow>
     dom (jaxval_adders st) \<subseteq> dom (jaxval_adders st') \<and>
     dom (jaxval_zeros_likers st) \<subseteq> dom (jaxval_zeros_likers st') \<and>
     dom (aval_zeros_likers st) \<subseteq> dom (aval_zeros_likers st')"
proof (induction rule: ad_step.induct)
  case (register r st)
  show ?case by (cases r) auto
qed

lemma registries_sound_init: "registries_sound ad_util_init"
  using adders_sound_init aval_zeros_liker_sound_unit
  by (simp add: registries_sound_def ad_util_init_def jaxval_zeros_likers_init_def
      aval_zeros_likers_init_def)

lemma registries_sound_register:
  "registries_sound st \<Longrightarrow> reg_sound r \<Longrightarrow> registries_sound (register st r)"
  by (cases r) (auto simp: registries_sound_def reg_sound_def adders_sound_def)

lemma registries_sound_lookup:
  "registries_sound st \<Longrightarrow> jaxval_adders st T = Some f \<Longrightarrow> adder_sound T f"
  "registries_sound st \<Longrightarrow> jaxval_zeros_likers st T = Some g \<Longrightarrow> zeros_liker_sound T g"
  "registries_sound st \<Longrightarrow> aval_zeros_likers st T = Some h \<Longrightarrow> aval_zeros_liker_sound T h"
  by (simp_all add: registries_sound_def adders_sound_def)

lemma ad_reachable_keys:
  "ad_reachable ok st \<Longrightarrow> UnitT \<in> dom (jaxval_adders st) \<and> AbstractUnitT \<in> dom (aval_zeros_likers st)"
proof (induction rule: ad_reachable.induct)
  case init
  then show ?case by (simp add: ad_util_init_def jaxval_adders_init_def aval_zeros_likers_init_def dom_def)
next
  case (step st st')
  with ad_step_keys [OF step.hyps(2)] show ?case by blast
qed

subsection \<open>Properties of the lifecycle\<close>

text \<open>C27: the registry contracts are invariants of the lifecycle: in every
  state reached by registrations that each keep their registry's contract,
  every entry of each of the three registries keeps it.\<close>

theorem ad_reachable_sound:
  assumes "ad_reachable reg_sound st"
  shows "registries_sound st"
  using assms
proof (induction rule: ad_reachable.induct)
  case init
  show ?case by (rule registries_sound_init)
next
  case (step st st')
  from step.hyps(2) obtain r where "reg_sound r" and "st' = register st r"
    by (cases rule: ad_stepE)
  with step.IH show ?case by (simp add: registries_sound_register)
qed

text \<open>C28: the entries the module registers at import are never removed: in
  every reachable state, whatever was registered since, the identity for
  the no-data descriptor and the combination of a no-data value with any
  value never raise \<open>KeyError\<close>.\<close>

theorem ad_reachable_unit_entries:
  assumes "ad_reachable ok st"
  shows "(\<exists>z. zeros_like_aval st AbstractUnit = Inr z) \<and> (\<forall>y. \<exists>v. add_impl st UnitV y = Inr v)"
  using ad_reachable_keys [OF assms] by (auto simp: zeros_like_aval_def add_impl_def)

end
