(* ===== verification/Spec2Isabelle.thy ===== *)
theory Spec2Isabelle
  imports Interp Lifecycle
begin

text \<open>
  \<^bold>\<open>A verification development of \<^verbatim>\<open>jax/ad_util.py\<close>.\<close>

  \<^bold>\<open>The program.\<close>  \<^verbatim>\<open>src/jax/ad_util.py\<close> is the symbolic-zero and
  additive-combination layer of JAX's differentiation machinery.  It keeps three
  type-keyed dictionaries of per-type behaviour (\<open>jaxval_adders\<close>, and for the
  additive identity \<open>jaxval_zeros_likers\<close> and \<open>aval_zeros_likers\<close>), defines
  three primitives through \<open>core.Primitive\<close> (\<open>add_any\<close>, \<open>zeros_like\<close>,
  \<open>stop_gradient\<close>), the payload-free sentinel \<open>Zero\<close>/\<open>zero\<close> with its
  registration in the tree protocol, and a custom binding rule for
  \<open>stop_gradient\<close>.  Its collaborators live outside \<^verbatim>\<open>src/\<close> (\<^verbatim>\<open>jax/core.py\<close>,
  \<^verbatim>\<open>jax/tree_util.py\<close>, the trace interpreters) and are modelled from the
  interface the specification gives them; the differentiation rules of
  ad_util's primitives follow \<^verbatim>\<open>jax/interpreters/ad.py\<close>.

  \<^bold>\<open>Theories.\<close>
  \<^item> \<open>Prelude\<close>: Python exceptions as values (\<open>py_exc\<close>), results \<open>error + 'a\<close>
    sequenced by \<open>res_bind\<close>/\<open>res_map\<close>, loops that stop at the first exception
    (\<open>res_list\<close>, \<open>res_mapM\<close>), dictionaries (\<open>dict_getitem\<close> raising
    \<open>KeyError\<close>, \<open>dict_setitem\<close>); the lemma collection \<open>res_simps\<close>.
  \<^item> \<open>Core\<close> (collaborator, \<^verbatim>\<open>jax/core.py\<close>): values \<open>pyval\<close> and their classes
    \<open>type_of\<close>, abstract values \<open>aval\<close>, \<open>concrete_aval\<close>, \<open>get_aval\<close>,
    \<open>valid_jaxtype\<close>, \<open>lattice_join\<close>, \<open>raise_to_shaped\<close>, traces,
    \<open>find_top_trace\<close>, \<open>full_lower\<close>.
  \<^item> \<open>Primitive\<close> (collaborator, \<open>core.Primitive\<close>): the descriptor record with
    its hooks \<open>impl\<close>, \<open>abstract_eval\<close>, \<open>custom_bind\<close> and \<open>def_impl\<close>,
    \<open>def_abstract_eval\<close>, \<open>def_custom_bind\<close>; the interface types \<open>'s bind_fn\<close>
    (\<open>p.bind(*args)\<close>) and \<open>'s process_fn\<close> (\<open>trace.process_primitive\<close>),
    polymorphic in the interpreter state, which ad_util only passes on.
  \<^item> \<open>Registry\<close> (ad_util lines 27--28, 46, 51--52): the module state
    \<open>ad_state\<close>, the record of the three dictionaries created at lines 27, 46
    and 51, their initial values (\<open>jaxval_adders_init\<close>,
    \<open>jaxval_zeros_likers_init\<close>, \<open>aval_zeros_likers_init\<close>, together
    \<open>ad_util_init\<close>) and registration, one dictionary assignment
    \<open>registry[T] = f\<close> (\<open>register_jaxval_adder\<close> and its kin, \<open>register\<close>);
    \<open>register_all\<close> folds a list of registrations and is a device of the
    model for stating what holds after any registrations.
  \<^item> \<open>AddJaxvals\<close> (lines 30--44): \<open>add_jaxvals\<close>, \<open>add_jaxvals_p\<close>, \<open>add_impl\<close>,
    \<open>add_abstract\<close>; the registry contract \<open>adders_sound\<close>.
  \<^item> \<open>ZerosLike\<close> (lines 48--63): \<open>zeros_like_aval\<close>, \<open>zeros_like_jaxval\<close>,
    \<open>zeros_like_p\<close>, \<open>zeros_like_impl\<close>, \<open>zeros_like_abstract\<close>; the contracts
    \<open>aval_zeros_liker_sound\<close> and \<open>zeros_liker_sound\<close>.
  \<^item> \<open>SymbolicZero\<close> (lines 65--71): \<open>Zero_repr\<close>, \<open>zero\<close>, \<open>zero_flatten\<close>,
    \<open>zero_unflatten\<close>, the registry \<open>ad_util_pytrees\<close>; the tree protocol of
    \<^verbatim>\<open>jax/tree_util.py\<close> (collaborator): \<open>tree_flatten\<close>, \<open>tree_unflatten\<close>.
  \<^item> \<open>StopGradient\<close> (lines 74--93): \<open>stop_gradient_impl\<close>,
    \<open>stop_gradient_abstract\<close>, \<open>stop_gradient_bind\<close>, \<open>stop_gradient_custom\<close>,
    \<open>stop_gradient_p\<close>; \<open>py_str\<close> approximates the builtin \<open>str\<close> in the error
    message (the theorems only use that the message ends with it).
  \<^item> \<open>Interp\<close> (collaborator): the default \<open>Primitive.bind\<close> and the traces that
    process primitives, \<open>prim_bind\<close>/\<open>process_primitive\<close> over the state
    \<open>interp\<close> (the log of processed primitives, staged equations, lifted
    constants, fresh variables), with a differentiation trace (\<^verbatim>\<open>ad.py\<close>:
    the rule table \<open>primitive_jvps\<close>, \<open>linear_jvp\<close> with \<open>instantiate_zeros\<close>
    for \<open>add_any\<close> and \<open>zeros_like\<close>, the zero rule of \<open>jvp_rule\<close> for
    \<open>stop_gradient\<close>) and a
    staging trace (\<^verbatim>\<open>partial_eval.py\<close>, every input unknown).
  \<^item> \<open>Lifecycle\<close> (lines 27--28, 51--52 and later registrations): the module
    state's lifecycle as an inductive step relation \<open>ad_step\<close> of registration
    events and its reachable states \<open>ad_reachable\<close>, devices of the model for
    "any state the program can be in after import"; the contracts
    \<open>reg_sound\<close>, \<open>registries_sound\<close>.
  \<^item> \<open>Spec2Isabelle\<close>: this header, the specification's scenario (an extension
    class \<open>IntBox\<close> registered with an adder and an identity constructor,
    \<open>intbox_state\<close>, or with an adder only, \<open>intbox_adder_state\<close>) and the
    properties that span components.

  \<^bold>\<open>How the parts interact.\<close>  The ad_util operations that bind a primitive
  (\<open>add_jaxvals\<close>, \<open>zeros_like_jaxval\<close>) take the binding function as a
  parameter, and the custom rule \<open>stop_gradient_bind\<close> takes the trace's
  \<open>process\<close> hook: their lemmas hold for every interpreter.  \<open>Interp\<close> ties the
  knot: \<open>prim_bind\<close> runs the custom rule of a primitive with its own
  \<open>process_primitive\<close> as hook, and the differentiation trace binds the
  primitive again on the primals and, through \<open>linear_jvp\<close>, on the tangents,
  after \<open>instantiate_zeros\<close> has called \<open>zeros_like_jaxval\<close> for each zero
  tangent.  The evaluation rules read the registries at call time; the model
  passes the current \<open>ad_state\<close>.

  \<^bold>\<open>What is proved.\<close>  Dispatch of the combination to the registered adder
  and its failure on an unregistered class (C1, C3); the no-data short cut
  (C2); the identity on the no-data descriptor (C4); the symbolic zero's round
  trip through the tree protocol, the round trip for every well-formed
  registry, that the zero is never a leaf, and that flattening returns with
  enough budget (C5--C8), with the leaves equal to a structural reference
  \<open>leaves_ref\<close> (C29); the stop-gradient rules (C9--C13); the places where
  the code and the specification part (C12--C16); soundness of the abstract
  rules for the evaluation rules under the registry contracts (C17, C18,
  C23) and type soundness of eager binding (C30); dispatch of the identity
  constructor (C19).  Under differentiation (C20--C22, C24, C26): the output
  tangent of a sum is the registered sum of the tangents; a zero tangent is
  instantiated by the registered identity constructor before the sum, so a
  constant whose class has no constructor makes the sum raise \<open>KeyError\<close>;
  with only zero tangents no tangent work is done; \<open>zeros_like\<close> is applied
  to the tangent as to the primal.  Under staging the combination records
  one equation typed by the join or raises the join's error (C25), and
  \<open>zeros_like\<close> is staged with the input's descriptor (C32); stop-gradient is
  processed outer trace first under nested differentiation and cuts both
  derivatives (C31).  The lifecycle: the contracts hold in every state
  reached by sound registrations (C27), and the module's own entries survive
  every registration (C28).

  \<^bold>\<open>Budgets.\<close>  The interpreter and the tree protocol recurse through
  values; the model gives them a budget (\<open>prim_bind n\<close>, \<open>tree_flatten n\<close>) and
  raises \<open>RecursionError\<close> when it is spent, as Python does at its recursion
  limit.  Every theorem about an outcome holds for every budget above the
  depth the computation needs (\<open>Suc n\<close>, \<open>Suc (Suc (Suc n))\<close>: one unit per
  nested bind or process step, so one trace level of differentiation costs
  two units above the eager binds of its rule), and
  \<open>tree_flatten_enough_fuel\<close> proves that a budget of the value's nesting
  depth is enough for flattening.

  \<^bold>\<open>Not modelled.\<close>  Python object identity beyond the value equality used
  for \<open>is\<close> on singletons; sublevels of traces; known constants of the
  staging trace (its inputs are all unknown, as under \<open>jit\<close>); transposition
  and batching rules; the lattice of all abstract values (the model has four
  kinds); deregistration, which the program never performs; the debugging
  assertion of \<open>Primitive.bind\<close> that every untraced argument is a valid JAX
  value (\<open>core.skip_checks\<close>), which the specification does not describe.
  The imports (lines 16--21) and \<open>map = safe_map\<close> (line 25) only bind names:
  ad_util never calls its \<open>map\<close>; \<open>Array = Any\<close> (line 23) is a type alias
  without behaviour.
\<close>

subsection \<open>The specification's scenario\<close>

definition intbox_add :: "pyval \<Rightarrow> pyval \<Rightarrow> pyval" where
  "intbox_add a b = (case (a, b) of (ObjV c [u], ObjV _ [v]) \<Rightarrow> ObjV c [u + v] | _ \<Rightarrow> a)"

definition intbox_zeros :: "pyval \<Rightarrow> pyval" where
  "intbox_zeros e = ObjV ''IntBox'' [0]"

definition intbox_regs :: "registration list" where
  "intbox_regs = [AdderReg (ObjT ''IntBox'') intbox_add, JaxvalZerosReg (ObjT ''IntBox'') intbox_zeros]"

definition intbox_state :: ad_state where
  "intbox_state = register_all ad_util_init intbox_regs"

text \<open>The scenario before the extension registers its identity constructor.\<close>

definition intbox_adder_state :: ad_state where
  "intbox_adder_state = register_all ad_util_init [AdderReg (ObjT ''IntBox'') intbox_add]"

lemma intbox_state_registries:
  "jaxval_adders intbox_state (ObjT ''IntBox'') = Some intbox_add"
  "jaxval_zeros_likers intbox_state (ObjT ''IntBox'') = Some intbox_zeros"
  "jaxval_adders intbox_state UnitT = jaxval_adders ad_util_init UnitT"
  "jaxval_adders intbox_state NdarrayT = None"
  by (simp_all add: intbox_state_def intbox_regs_def register_all_def ad_util_init_def
      jaxval_adders_init_def)

lemma lattice_join_ObjAval:
  "lattice_join (ObjAval c) b = Inr j \<Longrightarrow> j = ObjAval c"
  by (cases b) (auto simp: lattice_join_def split: if_splits)

lemma adder_sound_intbox: "adder_sound (ObjT ''IntBox'') intbox_add"
  unfolding adder_sound_def
proof (intro allI impI)
  fix x y ax ay j
  assume x: "type_of x = ObjT ''IntBox''" and ax: "get_aval x = Inr ax"
    and j: "lattice_join ax ay = Inr j"
  from x obtain gs where xv: "x = ObjV ''IntBox'' gs" by (cases x) simp_all
  have "\<exists>fs. intbox_add x y = ObjV ''IntBox'' fs"
    by (auto simp: xv intbox_add_def split: pyval.split list.split)
  moreover from ax xv have "ax = ObjAval ''IntBox''" by simp
  with j have "j = ObjAval ''IntBox''" by (simp add: lattice_join_ObjAval)
  ultimately show "\<exists>a. get_aval (intbox_add x y) = Inr a \<and> raise_to_shaped a = raise_to_shaped j"
    by auto
qed

lemma zeros_liker_sound_intbox: "zeros_liker_sound (ObjT ''IntBox'') intbox_zeros"
  unfolding zeros_liker_sound_def
proof (intro allI impI)
  fix x a
  assume "type_of x = ObjT ''IntBox''" and "get_aval x = Inr a"
  then have "a = ObjAval ''IntBox''" by (cases x) simp_all
  then show "\<exists>b. get_aval (intbox_zeros x) = Inr b \<and> raise_to_shaped b = raise_to_shaped a"
    by (simp add: intbox_zeros_def)
qed

lemma registries_sound_intbox: "registries_sound intbox_state"
  unfolding intbox_state_def intbox_regs_def register_all_def foldl.simps
  by (intro registries_sound_register registries_sound_init)
     (simp_all add: reg_sound_def adder_sound_intbox zeros_liker_sound_intbox)

subsection \<open>Properties across components\<close>

text \<open>C1: combining two values that no trace tracks, when their descriptors are
  not both the no-data one, evaluates the adder registered for the class of
  the first operand on the two operands, and leaves the interpreter state as
  it was.\<close>

theorem add_jaxvals_dispatch:
  assumes "jaxval_adders st (type_of x) = Some f"
    and "\<not> is_tracer x" and "\<not> is_tracer y"
    and "get_aval x = Inr ax" and "get_aval y = Inr ay"
    and "\<not> (ax = AbstractUnit \<and> ay = AbstractUnit)"
  shows "add_jaxvals (prim_bind (Suc n) st) st x y s = Inr (f x y, s)"
proof -
  have "find_top_trace [x, y] = None"
    using assms(2,3) by (simp add: find_top_trace_None_iff)
  then show ?thesis
    using assms(1,4-6) by (simp add: add_jaxvals_binds add_impl_registered)
qed

theorem add_jaxvals_dispatch_witness:
  "add_jaxvals (prim_bind 1 intbox_state) intbox_state (ObjV ''IntBox'' [3]) (ObjV ''IntBox'' [4])
     interp_init = Inr (ObjV ''IntBox'' [7], interp_init)"
proof -
  have "add_jaxvals (prim_bind (Suc 0) intbox_state) intbox_state (ObjV ''IntBox'' [3]) (ObjV ''IntBox'' [4])
          interp_init = Inr (intbox_add (ObjV ''IntBox'' [3]) (ObjV ''IntBox'' [4]), interp_init)"
    by (rule add_jaxvals_dispatch [where f = intbox_add and ax = "ObjAval ''IntBox''"
          and ay = "ObjAval ''IntBox''"])
       (simp_all add: intbox_state_registries)
  then show ?thesis by (simp add: intbox_add_def)
qed

text \<open>C3: combining a value of a class with no registered adder raises
  \<open>KeyError\<close> naming that class; no silent default is used.\<close>

theorem add_jaxvals_unregistered:
  assumes "jaxval_adders st (type_of x) = None"
    and "\<not> is_tracer x" and "\<not> is_tracer y"
    and "get_aval x = Inr ax" and "get_aval y = Inr ay"
    and "\<not> (ax = AbstractUnit \<and> ay = AbstractUnit)"
  shows "add_jaxvals (prim_bind (Suc n) st) st x y s = Inl (KeyError (type_of x))"
proof -
  have "find_top_trace [x, y] = None"
    using assms(2,3) by (simp add: find_top_trace_None_iff)
  then show ?thesis
    using assms(1,4-6) by (simp add: add_jaxvals_binds add_impl_unregistered)
qed

theorem add_jaxvals_unregistered_witness:
  "add_jaxvals (prim_bind 1 intbox_state) intbox_state (NdarrayV [1] [2]) (NdarrayV [1] [3])
     interp_init = Inl (KeyError NdarrayT)"
  using add_jaxvals_unregistered [of intbox_state "NdarrayV [1] [2]" "NdarrayV [1] [3]"
      "ConcreteArray [1] [2]" "ConcreteArray [1] [3]" 0 interp_init]
  by (simp add: intbox_state_registries)

text \<open>C14: the combination dispatches on the class of the first operand only.
  While the module's own adder for \<open>Unit\<close> is registered, adding the no-data
  value to any untraced value that has a descriptor other than the no-data one
  (an array, an extension object) returns the no-data value: the second
  operand is dropped without an error.\<close>

theorem add_jaxvals_unit_absorbs:
  assumes "jaxval_adders st UnitT = jaxval_adders ad_util_init UnitT"
    and "\<not> is_tracer y" and "get_aval y = Inr ay" and "ay \<noteq> AbstractUnit"
  shows "add_jaxvals (prim_bind (Suc n) st) st UnitV y s = Inr (UnitV, s)"
proof -
  have "find_top_trace [UnitV, y] = None"
    using assms(2) by (simp add: find_top_trace_None_iff)
  moreover have "jaxval_adders st (type_of UnitV) = Some (\<lambda>_ _. UnitV)"
    using assms(1) by (simp add: ad_util_init_def jaxval_adders_init_def)
  ultimately show ?thesis
    using assms(3,4) by (simp add: add_jaxvals_binds add_impl_registered)
qed

theorem add_jaxvals_unit_absorbs_witness:
  "add_jaxvals (prim_bind 1 intbox_state) intbox_state UnitV (NdarrayV [2] [5, 6]) interp_init
     = Inr (UnitV, interp_init)"
  using add_jaxvals_unit_absorbs [where st = intbox_state and y = "NdarrayV [2] [5, 6]"
      and ay = "ConcreteArray [2] [5, 6]" and n = 0 and s = interp_init]
  by (simp add: intbox_state_registries)

text \<open>C19: the identity for an untraced example value is what the constructor
  registered for the example's class builds from it; the interpreter state
  is left as it was.\<close>

theorem zeros_like_jaxval_dispatch:
  assumes "jaxval_zeros_likers st (type_of x) = Some g" and "\<not> is_tracer x"
  shows "zeros_like_jaxval (prim_bind (Suc n) st) st x s = Inr (g x, s)"
  using assms by (simp add: zeros_like_jaxval_def zeros_like_impl_registered)

theorem zeros_like_jaxval_dispatch_witness:
  "zeros_like_jaxval (prim_bind 1 intbox_state) intbox_state (ObjV ''IntBox'' [5]) interp_init
     = Inr (ObjV ''IntBox'' [0], interp_init)"
  using zeros_like_jaxval_dispatch [of intbox_state "ObjV ''IntBox'' [5]" intbox_zeros 0 interp_init]
  by (simp add: intbox_state_registries intbox_zeros_def)

text \<open>C16: the module pre-registers an identity only for the no-data descriptor
  (\<open>aval_zeros_likers\<close>), not for the no-data value itself: unless an extension
  registers one, \<open>zeros_like_jaxval(unit)\<close> raises \<open>KeyError(Unit)\<close>, while
  \<open>zeros_like_aval(abstract_unit)\<close> succeeds (C4).\<close>

theorem zeros_like_jaxval_unit_unregistered:
  assumes "(JaxvalZerosK, UnitT) \<notin> reg_target ` set regs"
  shows "zeros_like_jaxval (prim_bind (Suc n) (register_all ad_util_init regs)) (register_all ad_util_init regs)
           UnitV s = Inl (KeyError UnitT)"
proof -
  have "jaxval_zeros_likers (register_all ad_util_init regs) UnitT = None"
    using map_of_rev_regs_None(1) [OF assms]
    by (simp add: register_all_registries ad_util_init_def jaxval_zeros_likers_init_def)
  then show ?thesis by (simp add: zeros_like_jaxval_def zeros_like_impl_unregistered)
qed

theorem zeros_like_jaxval_unit_unregistered_witness:
  "zeros_like_jaxval (prim_bind 1 intbox_state) intbox_state UnitV interp_init = Inl (KeyError UnitT)"
  using zeros_like_jaxval_unit_unregistered [of intbox_regs 0 interp_init]
  by (simp add: intbox_state_def intbox_regs_def)

subsection \<open>Witnesses of the component properties\<close>

theorem add_jaxvals_unit_short_circuit_witness:
  "add_jaxvals (prim_bind 1 ad_util_init) ad_util_init UnitV UnitV interp_init = Inr (UnitV, interp_init)"
  by (rule AddJaxvals.add_jaxvals_unit_short_circuit) simp_all

theorem zeros_like_aval_abstract_unit_witness:
  "zeros_like_aval intbox_state AbstractUnit = Inr UnitV"
  unfolding intbox_state_def
  by (rule ZerosLike.zeros_like_aval_abstract_unit) (simp add: intbox_regs_def)

theorem tree_unflatten_flatten_witness:
  "tree_unflatten (snd (projr (tree_flatten 3 ad_util_pytrees (TupleV [zero, NdarrayV [] [1]]))))
     [NdarrayV [] [1]] = Inr (TupleV [zero, NdarrayV [] [1]])"
proof -
  have fl: "tree_flatten 3 ad_util_pytrees (TupleV [zero, NdarrayV [] [1]]) =
      Inr ([NdarrayV [] [1]], snd (projr (tree_flatten 3 ad_util_pytrees (TupleV [zero, NdarrayV [] [1]]))))"
    by (simp add: numeral_3_eq_3 ad_util_pytrees_apply zero_def zero_flatten_def)
  show ?thesis by (rule SymbolicZero.tree_unflatten_flatten [OF fl])
qed

theorem zero_never_leaf_witness:
  "zero \<notin> set (fst (projr (tree_flatten 3 ad_util_pytrees (TupleV [zero, NdarrayV [] [1]]))))"
proof -
  have fl: "tree_flatten 3 ad_util_pytrees (TupleV [zero, NdarrayV [] [1]]) =
      Inr (fst (projr (tree_flatten 3 ad_util_pytrees (TupleV [zero, NdarrayV [] [1]]))),
           snd (projr (tree_flatten 3 ad_util_pytrees (TupleV [zero, NdarrayV [] [1]]))))"
    by (simp add: numeral_3_eq_3 ad_util_pytrees_apply zero_def zero_flatten_def)
  show ?thesis by (rule SymbolicZero.zero_never_leaf [OF fl])
qed

theorem tree_flatten_enough_fuel_witness:
  "\<exists>ls d. tree_flatten 2 ad_util_pytrees (TupleV [zero, NoneV]) = Inr (ls, d)"
  by (rule SymbolicZero.tree_flatten_enough_fuel) (simp add: zero_def)

theorem stop_gradient_impl_behaviour_witness:
  "stop_gradient_impl (NdarrayV [1] [2]) = Inr (NdarrayV [1] [2]) \<and>
   (\<exists>msg. stop_gradient_impl (StrV ''abc'') = Inl (TypeError msg) \<and> (\<exists>pre. msg = pre @ ''abc''))"
  using StopGradient.stop_gradient_impl_behaviour [of "NdarrayV [1] [2]"]
    StopGradient.stop_gradient_impl_behaviour [of "StrV ''abc''"]
  by (simp add: valid_jaxtype_def)

theorem stop_gradient_bind_no_trace_witness:
  "stop_gradient_bind (\<lambda>t xs s. Inl RecursionError) (NdarrayV [] [1]) interp_init
     = Inr (NdarrayV [] [1], interp_init)"
  by (rule StopGradient.stop_gradient_bind_no_trace) simp

theorem stop_gradient_under_jvp_witness:
  "prim_bind 3 intbox_state stop_gradient_p [JVPTracerV 1 (NdarrayV [] [2]) (NdarrayV [] [1])] interp_init =
     Inr (NdarrayV [] [2], interp_init\<lparr>processed :=
            [(Trace JVPTrace 1, ''stop_gradient'', [JVPTracerV 1 (NdarrayV [] [2]) (NdarrayV [] [1])])]\<rparr>)"
  using Interp.stop_gradient_under_jvp [of "NdarrayV [] [2]" 0 intbox_state 1 "NdarrayV [] [1]" interp_init]
  by (simp add: numeral_3_eq_3 interp_init_def)

theorem stop_gradient_bind_skips_check_witness:
  "prim_bind 1 intbox_state stop_gradient_p [StrV ''abc''] interp_init = Inr (StrV ''abc'', interp_init)
   \<and> (\<exists>e. stop_gradient_impl (StrV ''abc'') = Inl e)"
  using Interp.stop_gradient_bind_skips_check [of "StrV ''abc''" 0 intbox_state interp_init]
  by (simp add: stop_gradient_impl_def valid_jaxtype_def)

theorem add_impl_abstract_sound_witness:
  "\<exists>a. get_aval (projr (add_impl intbox_state (ObjV ''IntBox'' [1]) (ObjV ''IntBox'' [2]))) = Inr a
     \<and> raise_to_shaped a = raise_to_shaped (ObjAval ''IntBox'')"
proof -
  have sound: "adders_sound intbox_state"
    unfolding intbox_state_def intbox_regs_def register_all_def foldl.simps
    by (intro adders_sound_register adders_sound_init) (simp_all add: adder_sound_intbox)
  have r: "add_impl intbox_state (ObjV ''IntBox'' [1]) (ObjV ''IntBox'' [2]) =
      Inr (projr (add_impl intbox_state (ObjV ''IntBox'' [1]) (ObjV ''IntBox'' [2])))"
    by (simp add: add_impl_registered intbox_state_registries)
  show ?thesis
    by (rule AddJaxvals.add_impl_abstract_sound [where ax = "ObjAval ''IntBox''" and ay = "ObjAval ''IntBox''",
          OF sound _ _ _ r]) (simp_all add: add_abstract_def)
qed

theorem zeros_like_aval_sound_witness:
  "\<exists>b. get_aval UnitV = Inr b \<and> raise_to_shaped b = raise_to_shaped AbstractUnit"
proof -
  have z: "zeros_like_aval (register_all ad_util_init []) AbstractUnit = Inr UnitV"
    by (simp add: zeros_like_aval_def ad_util_init_def aval_zeros_likers_init_def)
  show ?thesis by (rule ZerosLike.zeros_like_aval_sound [OF _ z]) simp
qed

theorem add_jaxvals_jvp_tangent_sum_witness:
  "add_jaxvals (prim_bind 3 intbox_state) intbox_state
     (JVPTracerV 0 (ObjV ''IntBox'' [3]) (ObjV ''IntBox'' [1]))
     (JVPTracerV 0 (ObjV ''IntBox'' [4]) (ObjV ''IntBox'' [2])) interp_init =
   Inr (JVPTracerV 0 (ObjV ''IntBox'' [7]) (ObjV ''IntBox'' [3]),
        interp_init\<lparr>processed := [(Trace JVPTrace 0, ''add_any'',
          [JVPTracerV 0 (ObjV ''IntBox'' [3]) (ObjV ''IntBox'' [1]),
           JVPTracerV 0 (ObjV ''IntBox'' [4]) (ObjV ''IntBox'' [2])])]\<rparr>)"
  using Interp.add_jaxvals_jvp_tangent_sum [where a = "ObjV ''IntBox'' [3]" and b = "ObjV ''IntBox'' [4]"
      and ta = "ObjV ''IntBox'' [1]" and tb = "ObjV ''IntBox'' [2]"
      and A = "ObjAval ''IntBox''" and B = "ObjAval ''IntBox''"
      and TA = "ObjAval ''IntBox''" and TB = "ObjAval ''IntBox''"
      and st = intbox_state and f = intbox_add and g = intbox_add
      and n = 0 and l = 0 and s = interp_init]
  by (simp add: intbox_state_registries intbox_add_def interp_init_def numeral_3_eq_3)

theorem add_jaxvals_jvp_zero_tangent_witness:
  "add_jaxvals (prim_bind 3 intbox_state) intbox_state
     (JVPTracerV 0 (ObjV ''IntBox'' [3]) ZeroV)
     (JVPTracerV 0 (ObjV ''IntBox'' [4]) (ObjV ''IntBox'' [2])) interp_init =
   Inr (JVPTracerV 0 (ObjV ''IntBox'' [7]) (ObjV ''IntBox'' [2]),
        interp_init\<lparr>processed := [(Trace JVPTrace 0, ''add_any'',
          [JVPTracerV 0 (ObjV ''IntBox'' [3]) ZeroV,
           JVPTracerV 0 (ObjV ''IntBox'' [4]) (ObjV ''IntBox'' [2])])]\<rparr>)"
  using Interp.add_jaxvals_jvp_zero_tangent [where a = "ObjV ''IntBox'' [3]" and b = "ObjV ''IntBox'' [4]"
      and tb = "ObjV ''IntBox'' [2]" and A = "ObjAval ''IntBox''" and B = "ObjAval ''IntBox''"
      and st = intbox_state and f = intbox_add and h = intbox_zeros and g = intbox_add
      and n = 0 and l = 0 and s = interp_init]
  by (simp add: intbox_state_registries intbox_add_def intbox_zeros_def interp_init_def numeral_3_eq_3)

theorem add_jaxvals_jvp_zero_tangents_witness:
  "add_jaxvals (prim_bind 3 intbox_adder_state) intbox_adder_state
     (JVPTracerV 0 (ObjV ''IntBox'' [3]) ZeroV) (JVPTracerV 0 (ObjV ''IntBox'' [4]) ZeroV) interp_init =
   Inr (ObjV ''IntBox'' [7],
        interp_init\<lparr>processed := [(Trace JVPTrace 0, ''add_any'',
          [JVPTracerV 0 (ObjV ''IntBox'' [3]) ZeroV, JVPTracerV 0 (ObjV ''IntBox'' [4]) ZeroV])]\<rparr>)"
  using Interp.add_jaxvals_jvp_zero_tangents [where a = "ObjV ''IntBox'' [3]" and b = "ObjV ''IntBox'' [4]"
      and A = "ObjAval ''IntBox''" and B = "ObjAval ''IntBox''" and st = intbox_adder_state
      and f = intbox_add and n = 0 and l = 0 and s = interp_init]
  by (simp add: intbox_adder_state_def register_all_def intbox_add_def interp_init_def numeral_3_eq_3)

theorem zeros_like_impl_abstract_sound_witness:
  "zeros_like_impl intbox_state (ObjV ''IntBox'' [5]) = Inr (ObjV ''IntBox'' [0])
   \<and> (\<exists>b. get_aval (ObjV ''IntBox'' [0]) = Inr b \<and> raise_to_shaped b = raise_to_shaped (ObjAval ''IntBox''))"
proof -
  have z: "zeros_like_impl (register_all ad_util_init intbox_regs) (ObjV ''IntBox'' [5]) = Inr (ObjV ''IntBox'' [0])"
    using intbox_state_registries(2)
    by (simp add: intbox_state_def zeros_like_impl_registered intbox_zeros_def)
  have regs: "\<forall>(T, g) \<in> set (jaxval_zeros_regs intbox_regs). zeros_liker_sound T g"
    by (simp add: intbox_regs_def zeros_liker_sound_intbox)
  from ZerosLike.zeros_like_impl_abstract_sound [OF regs _ _ z, of "ObjAval ''IntBox''" "ObjAval ''IntBox''"]
  show ?thesis using z by (simp add: intbox_state_def zeros_like_abstract_def)
qed

theorem zeros_like_under_jvp_witness:
  "zeros_like_jaxval (prim_bind 3 intbox_state) intbox_state
     (JVPTracerV 0 (ObjV ''IntBox'' [5]) (ObjV ''IntBox'' [1])) interp_init =
   Inr (JVPTracerV 0 (ObjV ''IntBox'' [0]) (ObjV ''IntBox'' [0]), interp_init\<lparr>processed :=
          [(Trace JVPTrace 0, ''zeros_like'', [JVPTracerV 0 (ObjV ''IntBox'' [5]) (ObjV ''IntBox'' [1])])]\<rparr>)"
  using Interp.zeros_like_under_jvp [where p = "ObjV ''IntBox'' [5]" and g = intbox_zeros and g' = intbox_zeros
      and st = intbox_state and n = 0 and l = 0 and t = "ObjV ''IntBox'' [1]" and s = interp_init]
  by (simp add: intbox_state_registries intbox_zeros_def interp_init_def numeral_3_eq_3)

theorem add_jaxvals_under_staging_witness:
  "add_jaxvals (prim_bind 2 intbox_state) intbox_state
     (JaxprTracerV 0 (ShapedArray [2]) 0) (JaxprTracerV 0 (ShapedArray [3]) 1) interp_init =
   Inl (TypeError ''incompatible shapes'')
   \<and> add_jaxvals (prim_bind 2 intbox_state) intbox_state
     (JaxprTracerV 0 (ConcreteArray [2] [1, 2]) 0) (JaxprTracerV 0 (ShapedArray [2]) 1) (interp_init\<lparr>fresh := 2\<rparr>) =
   Inr (JaxprTracerV 0 (ShapedArray [2]) 2,
        interp_init\<lparr>processed := [(Trace JaxprTrace 0, ''add_any'',
                       [JaxprTracerV 0 (ConcreteArray [2] [1, 2]) 0, JaxprTracerV 0 (ShapedArray [2]) 1])],
                    staged_eqns := [(''add_any'', [0, 1], 2)], fresh := 3\<rparr>)"
  using Interp.add_jaxvals_under_staging [where n = 0 and st = intbox_state and l = 0
      and a = "ShapedArray [2]" and v = 0 and b = "ShapedArray [3]" and w = 1 and s = interp_init]
    Interp.add_jaxvals_under_staging [where n = 0 and st = intbox_state and l = 0
      and a = "ConcreteArray [2] [1, 2]" and v = 0 and b = "ShapedArray [2]" and w = 1 and s = "interp_init\<lparr>fresh := 2\<rparr>"]
  by (simp add: lattice_join_def interp_init_def numeral_2_eq_2)

theorem add_jaxvals_jvp_constant_witness:
  "add_jaxvals (prim_bind 3 intbox_adder_state) intbox_adder_state
     (JVPTracerV 0 (ObjV ''IntBox'' [3]) (ObjV ''IntBox'' [1])) (ObjV ''IntBox'' [4]) interp_init =
   Inl (KeyError (ObjT ''IntBox''))"
  using Interp.add_jaxvals_jvp_constant [where p = "ObjV ''IntBox'' [3]" and c = "ObjV ''IntBox'' [4]"
      and A = "ObjAval ''IntBox''" and B = "ObjAval ''IntBox''" and st = intbox_adder_state
      and f = intbox_add and n = 0 and l = 0 and t = "ObjV ''IntBox'' [1]" and s = interp_init]
  by (simp add: intbox_adder_state_def register_all_def ad_util_init_def jaxval_zeros_likers_init_def
      numeral_3_eq_3)

theorem ad_reachable_sound_witness:
  "ad_reachable reg_sound intbox_state \<and> registries_sound intbox_state"
proof -
  have "list_all reg_sound intbox_regs"
    by (simp add: intbox_regs_def reg_sound_def adder_sound_intbox zeros_liker_sound_intbox)
  then have r: "ad_reachable reg_sound intbox_state"
    unfolding intbox_state_def by (rule ad_reachable_register_all)
  from r Lifecycle.ad_reachable_sound [OF r] show ?thesis by simp
qed

theorem ad_reachable_unit_entries_witness:
  "ad_reachable (\<lambda>_. True) intbox_state
   \<and> (\<exists>z. zeros_like_aval intbox_state AbstractUnit = Inr z)
   \<and> (\<forall>y. \<exists>v. add_impl intbox_state UnitV y = Inr v)"
proof -
  have r: "ad_reachable (\<lambda>_. True) intbox_state"
    unfolding intbox_state_def by (rule ad_reachable_register_all) (simp add: intbox_regs_def)
  from r Lifecycle.ad_reachable_unit_entries [OF r] show ?thesis by simp
qed

theorem tree_flatten_leaves_ref_witness:
  "res_map fst (tree_flatten 3 ad_util_pytrees
      (TupleV [NdarrayV [] [1], zero, TupleV [NoneV, ObjV ''IntBox'' [2]]]))
   = Inr [NdarrayV [] [1], ObjV ''IntBox'' [2]]"
  using SymbolicZero.tree_flatten_leaves_ref
      [of "TupleV [NdarrayV [] [1], zero, TupleV [NoneV, ObjV ''IntBox'' [2]]]" 3]
  by (simp add: zero_def)

text \<open>C30: eager evaluation is sound for the abstract rules (type soundness of
  binding): when no trace is active, binding any of ad_util's three
  primitives on registries whose entries keep their contracts leaves the
  interpreter state as it was and returns a value whose descriptor matches
  the one the primitive's abstract rule computes from the arguments'
  descriptors.\<close>

theorem eager_bind_type_sound:
  assumes sound: "registries_sound st" and p: "ad_prim st p"
    and untraced: "list_all (\<lambda>x. \<not> is_tracer x) args"
    and avs: "res_list get_aval args = Inr avs" and a: "abstract_eval p avs = Inr a"
    and r: "prim_bind (Suc n) st p args s = Inr (v, s')"
  shows "s' = s \<and> (\<exists>b. get_aval v = Inr b \<and> raise_to_shaped b = raise_to_shaped a)"
proof -
  have none: "find_top_trace args = None"
    using untraced by (simp add: find_top_trace_None_iff list_all_iff)
  from p consider (add) "p = add_jaxvals_p st" | (zeros) "p = zeros_like_p st" | (sg) "p = stop_gradient_p"
    by (auto simp: ad_prim_def)
  then show ?thesis
  proof cases
    case add
    with r none obtain x y where args: "args = [x, y]" and ev: "add_impl st x y = Inr v" and "s' = s"
      by (auto simp: res_map_eq_Inr dest!: call2_Inr)
    moreover from avs a add args obtain ax ay where "get_aval x = Inr ax" "get_aval y = Inr ay"
        and "lattice_join ax ay = Inr a"
      by (auto simp: res_bind_eq_Inr res_map_eq_Inr add_abstract_def dest!: call2_Inr)
    moreover from ev obtain f where "jaxval_adders st (type_of x) = Some f" and "v = f x y"
      by (cases "jaxval_adders st (type_of x)") (auto simp: add_impl_def)
    ultimately show ?thesis
      using registries_sound_lookup(1) [OF sound] by (fastforce simp: adder_sound_def)
  next
    case zeros
    with r none obtain x where args: "args = [x]" and ev: "zeros_like_impl st x = Inr v" and "s' = s"
      by (auto simp: res_map_eq_Inr dest!: call1_Inr)
    moreover from avs a zeros args have "get_aval x = Inr a"
      by (auto simp: res_bind_eq_Inr res_map_eq_Inr zeros_like_abstract_def dest!: call1_Inr)
    moreover from ev obtain g where "jaxval_zeros_likers st (type_of x) = Some g" and "v = g x"
      by (cases "jaxval_zeros_likers st (type_of x)") (auto simp: zeros_like_impl_def)
    ultimately show ?thesis
      using registries_sound_lookup(2) [OF sound] by (fastforce simp: zeros_liker_sound_def)
  next
    case sg
    from r sg obtain x where args: "args = [x]"
      by (cases args rule: remdups_adj.cases) (auto simp: stop_gradient_custom_def)
    with r sg none have "v = x" and "s' = s" by (simp_all add: stop_gradient_bind_def)
    moreover from avs a sg args have "get_aval x = Inr a"
      by (auto simp: res_bind_eq_Inr res_map_eq_Inr stop_gradient_abstract_def dest!: call1_Inr)
    ultimately show ?thesis by simp
  qed
qed

theorem eager_bind_type_sound_witness:
  "prim_bind 1 intbox_state (add_jaxvals_p intbox_state) [ObjV ''IntBox'' [3], ObjV ''IntBox'' [4]] interp_init
     = Inr (ObjV ''IntBox'' [7], interp_init)
   \<and> abstract_eval (add_jaxvals_p intbox_state) [ObjAval ''IntBox'', ObjAval ''IntBox''] = Inr (ObjAval ''IntBox'')
   \<and> (\<exists>b. get_aval (ObjV ''IntBox'' [7]) = Inr b \<and> raise_to_shaped b = raise_to_shaped (ObjAval ''IntBox''))"
proof -
  have r: "prim_bind (Suc 0) intbox_state (add_jaxvals_p intbox_state) [ObjV ''IntBox'' [3], ObjV ''IntBox'' [4]]
      interp_init = Inr (ObjV ''IntBox'' [7], interp_init)"
    using intbox_state_registries(1)
    by (simp add: add_impl_registered intbox_add_def find_top_trace_def map_filter_simps)
  have a: "abstract_eval (add_jaxvals_p intbox_state) [ObjAval ''IntBox'', ObjAval ''IntBox''] = Inr (ObjAval ''IntBox'')"
    by (simp add: add_abstract_def)
  have p: "ad_prim intbox_state (add_jaxvals_p intbox_state)" by (simp add: ad_prim_def)
  from eager_bind_type_sound [OF registries_sound_intbox p _ _ a r]
  show ?thesis using r a by simp
qed

theorem stop_gradient_nested_jvp_witness:
  "prim_bind 5 intbox_state stop_gradient_p
     [JVPTracerV 1 (JVPTracerV 0 (NdarrayV [] [2]) (NdarrayV [] [1])) (NdarrayV [] [3])] interp_init =
   Inr (NdarrayV [] [2], interp_init\<lparr>processed :=
     [(Trace JVPTrace 1, ''stop_gradient'', [JVPTracerV 1 (JVPTracerV 0 (NdarrayV [] [2]) (NdarrayV [] [1])) (NdarrayV [] [3])]),
      (Trace JVPTrace 0, ''stop_gradient'', [JVPTracerV 0 (NdarrayV [] [2]) (NdarrayV [] [1])])]\<rparr>)"
  using Interp.stop_gradient_nested_jvp [where p = "NdarrayV [] [2]" and n = 0 and st = intbox_state
      and l = 0 and t = "NdarrayV [] [1]" and t' = "NdarrayV [] [3]" and s = interp_init]
  by (simp add: interp_init_def eval_nat_numeral)

end
